theory Spec2Isabelle
  imports Main "HOL-Library.Sublist"
begin

section \<open>JavaScript strings and numbers\<close>

text \<open>
  Strings are \<^typ>\<open>string\<close>. The texts the engine inspects (host names, paths, file
  names, DNS records, key words) are ASCII; case folding is the ASCII one. Numbers are
  \<^typ>\<open>int\<close> or \<^typ>\<open>nat\<close>: every number the scoring code handles is a small integer
  or a half of one, where double arithmetic is exact.
\<close>

definition upperLetters :: string where
  "upperLetters = ''ABCDEFGHIJKLMNOPQRSTUVWXYZ''"

definition lowerLetters :: string where
  "lowerLetters = ''abcdefghijklmnopqrstuvwxyz''"

definition isUpper :: "char \<Rightarrow> bool" where
  "isUpper c = (c \<in> set upperLetters)"

definition isLower :: "char \<Rightarrow> bool" where
  "isLower c = (c \<in> set lowerLetters)"

definition isLetter :: "char \<Rightarrow> bool" where
  "isLetter c = (isUpper c \<or> isLower c)"

definition lowerChar :: "char \<Rightarrow> char" where
  "lowerChar c = (case map_of (zip upperLetters lowerLetters) c of None \<Rightarrow> c | Some d \<Rightarrow> d)"

definition upperChar :: "char \<Rightarrow> char" where
  "upperChar c = (case map_of (zip lowerLetters upperLetters) c of None \<Rightarrow> c | Some d \<Rightarrow> d)"

definition toLowerCase :: "string \<Rightarrow> string" where
  "toLowerCase s = map lowerChar s"

text \<open>\<open>s.includes(p)\<close>, \<open>s.startsWith(p)\<close>, \<open>s.endsWith(p)\<close>.\<close>

fun includes_str :: "string \<Rightarrow> string \<Rightarrow> bool" where
  "includes_str [] p = (p = [])"
| "includes_str (c # cs) p = (prefix p (c # cs) \<or> includes_str cs p)"

definition startsWith :: "string \<Rightarrow> string \<Rightarrow> bool" where
  "startsWith s p = prefix p s"

definition endsWith :: "string \<Rightarrow> string \<Rightarrow> bool" where
  "endsWith s p = suffix p s"

text \<open>\<open>s.split(sep)\<close> for a one-character separator; the empty string gives one empty part.\<close>

fun split_on :: "char \<Rightarrow> string \<Rightarrow> string list" where
  "split_on sep [] = [[]]"
| "split_on sep (c # cs) =
     (if c = sep then [] # split_on sep cs
      else (case split_on sep cs of [] \<Rightarrow> [[c]] | p # ps \<Rightarrow> (c # p) # ps))"

text \<open>\<open>xs.join(sep)\<close>.\<close>

fun join :: "string \<Rightarrow> string list \<Rightarrow> string" where
  "join sep [] = []"
| "join sep [x] = x"
| "join sep (x # y # ys) = x @ sep @ join sep (y # ys)"

text \<open>The decimal text of a count, as a template literal prints it.\<close>

definition digit_char :: "nat \<Rightarrow> char" where
  "digit_char d = ''0123456789'' ! d"

fun string_of_nat :: "nat \<Rightarrow> string" where
  "string_of_nat n =
     (if n < 10 then [digit_char n] else string_of_nat (n div 10) @ [digit_char (n mod 10)])"

declare string_of_nat.simps [simp del]

text \<open>
  \<open>Math.round\<close> of a number given in tenths: \<open>Math.round(x)\<close> is \<open>floor(x + 0.5)\<close>,
  halves go up.
\<close>

definition round_tenths :: "int \<Rightarrow> int" where
  "round_tenths n = (n + 5) div 10"


section \<open>Data model\<close>

record domain_info =
  age :: string
  registrar :: "string option"
  country :: "string option"
  blacklisted :: "bool option"
  suspicious :: bool

record mx_record =
  exchange :: "string option"
  mx_priority :: int

record sender_result =
  email :: string
  domain :: "string option"
  spf :: string
  dkim :: string
  dmarc :: string
  mxRecords :: "mx_record list option"
  domainInfo :: "domain_info option"
  reputation :: string
  senderRisks :: "string list"

text \<open>
  The result for one URL. The object of the \<open>catch\<close> of \<open>analyzeUrl\<close> has neither
  \<open>resolvedUrl\<close> nor \<open>redirects\<close>; \<open>None\<close> stands for a missing member and for \<open>null\<close>.
\<close>

record url_result =
  url :: string
  resolvedUrl :: "string option"
  dangerous :: bool
  riskScore :: int
  flags :: "string list"
  redirects :: "string option"

record url_analysis =
  urls :: "url_result list"
  dangerousUrls :: "string list"
  dangerousCount :: nat
  url_error :: "string option"

record content_result =
  phishingScore :: int
  socialEngineering :: string
  impersonation :: bool
  shortBodyWithLinks :: bool
  content_flags :: "string list"

record attachment =
  name :: string
  size :: string
  extension :: string

record attachment_result =
  att_name :: string
  att_extension :: string
  att_dangerous :: bool
  att_riskScore :: int
  att_flags :: "string list"

record attachment_analysis =
  attachments :: "attachment_result list"
  att_dangerousCount :: nat

text \<open>
  The metadata object. A field the code compares with \<open><\<close> or \<open>>\<close> or \<open>=== false\<close> is
  optional, \<open>None\<close> being \<open>undefined\<close> (the fallback \<open>metadata || {}\<close>): every such
  comparison with \<open>undefined\<close> is false. A field only tested for truthiness is a bool.
\<close>

record metadata =
  hasAttachments :: bool
  attachmentCount :: "nat option"
  urlCount :: "nat option"
  bodyLength :: "nat option"
  senderNamePresent :: bool
  senderNameMatchesDomain :: bool
  hasImages :: "nat option"
  recipientCount :: "nat option"
  isBcc :: bool
  isReply :: "bool option"
  isForward :: "bool option"
  isSpamFolder :: bool

definition empty_metadata :: metadata where
  "empty_metadata =
     \<lparr>hasAttachments = False, attachmentCount = None, urlCount = None, bodyLength = None,
      senderNamePresent = False, senderNameMatchesDomain = False, hasImages = None,
      recipientCount = None, isBcc = False, isReply = None, isForward = None,
      isSpamFolder = False\<rparr>"

definition num_lt :: "nat option \<Rightarrow> nat \<Rightarrow> bool" where
  "num_lt x n = (case x of None \<Rightarrow> False | Some v \<Rightarrow> v < n)"

definition num_gt :: "nat option \<Rightarrow> nat \<Rightarrow> bool" where
  "num_gt x n = (case x of None \<Rightarrow> False | Some v \<Rightarrow> v > n)"

record analysis =
  senderAnalysis :: sender_result
  urlAnalysis :: url_analysis
  contentAnalysis :: content_result
  attachmentAnalysis :: attachment_analysis
  metadata :: "metadata option"

record threat_score =
  score :: int
  level :: string
  recommendation :: string
  reasons :: "string list"


section \<open>Regular expressions\<close>

text \<open>
  The pattern language of the regular expressions the source tests with \<open>RegExp.test\<close>:
  literal characters, \<open>.\<close>, character classes (listed characters) and their negation,
  sequence, alternation and repetition. \<open>test\<close> only asks whether some substring matches,
  so the language of the pattern decides it; it is computed with derivatives.
\<close>

datatype rx =
    RNone
  | REps
  | RChr char
  | RDot
  | RCls string
  | RNot string
  | RSeq rx rx
  | RAlt rx rx
  | RStar rx

definition digits :: string where
  "digits = ''0123456789''"

text \<open>Whether one character matches an atom; \<open>ci\<close> is the flag \<open>i\<close>.\<close>

definition inClass :: "bool \<Rightarrow> string \<Rightarrow> char \<Rightarrow> bool" where
  "inClass ci cs d =
     (d \<in> set cs \<or> (ci \<and> (lowerChar d \<in> set cs \<or> upperChar d \<in> set cs)))"

definition isLineTerminator :: "char \<Rightarrow> bool" where
  "isLineTerminator d = (d = CHR 0x0A \<or> d = CHR 0x0D)"

fun nullable :: "rx \<Rightarrow> bool" where
  "nullable RNone = False"
| "nullable REps = True"
| "nullable (RChr c) = False"
| "nullable RDot = False"
| "nullable (RCls cs) = False"
| "nullable (RNot cs) = False"
| "nullable (RSeq r s) = (nullable r \<and> nullable s)"
| "nullable (RAlt r s) = (nullable r \<or> nullable s)"
| "nullable (RStar r) = True"

text \<open>Sequence and alternation that drop the empty language, to keep derivatives small.\<close>

fun seq :: "rx \<Rightarrow> rx \<Rightarrow> rx" where
  "seq RNone s = RNone"
| "seq REps s = s"
| "seq r s = (if s = RNone then RNone else RSeq r s)"

fun alt :: "rx \<Rightarrow> rx \<Rightarrow> rx" where
  "alt RNone s = s"
| "alt r s = (if s = RNone then r else RAlt r s)"

fun deriv :: "bool \<Rightarrow> char \<Rightarrow> rx \<Rightarrow> rx" where
  "deriv ci d RNone = RNone"
| "deriv ci d REps = RNone"
| "deriv ci d (RChr c) =
     (if (if ci then lowerChar d = lowerChar c else d = c) then REps else RNone)"
| "deriv ci d RDot = (if isLineTerminator d then RNone else REps)"
| "deriv ci d (RCls cs) = (if inClass ci cs d then REps else RNone)"
| "deriv ci d (RNot cs) = (if inClass ci cs d then RNone else REps)"
| "deriv ci d (RSeq r s) =
     (if nullable r then alt (seq (deriv ci d r) s) (deriv ci d s)
      else seq (deriv ci d r) s)"
| "deriv ci d (RAlt r s) = alt (deriv ci d r) (deriv ci d s)"
| "deriv ci d (RStar r) = seq (deriv ci d r) (RStar r)"

fun matches :: "bool \<Rightarrow> rx \<Rightarrow> string \<Rightarrow> bool" where
  "matches ci r [] = nullable r"
| "matches ci r (d # ds) = matches ci (deriv ci d r) ds"

text \<open>
  The language of a pattern, the meaning the derivative matcher computes: the texts the
  whole pattern matches.
\<close>

definition lang_conc :: "string set \<Rightarrow> string set \<Rightarrow> string set" where
  "lang_conc A B = {xs @ ys | xs ys. xs \<in> A \<and> ys \<in> B}"

inductive_set lang_star :: "string set \<Rightarrow> string set" for A :: "string set" where
  star_nil: "[] \<in> lang_star A"
| star_step: "u \<in> A \<Longrightarrow> v \<in> lang_star A \<Longrightarrow> u @ v \<in> lang_star A"

fun lang :: "bool \<Rightarrow> rx \<Rightarrow> string set" where
  "lang ci RNone = {}"
| "lang ci REps = {[]}"
| "lang ci (RChr c) = {[d] | d. if ci then lowerChar d = lowerChar c else d = c}"
| "lang ci RDot = {[d] | d. \<not> isLineTerminator d}"
| "lang ci (RCls cs) = {[d] | d. inClass ci cs d}"
| "lang ci (RNot cs) = {[d] | d. \<not> inClass ci cs d}"
| "lang ci (RSeq r s) = lang_conc (lang ci r) (lang ci s)"
| "lang ci (RAlt r s) = lang ci r \<union> lang ci s"
| "lang ci (RStar r) = lang_star (lang ci r)"

text \<open>The texts that, put behind the character \<open>d\<close>, are in a language.\<close>

definition left_quotient :: "char \<Rightarrow> string set \<Rightarrow> string set" where
  "left_quotient d L = {w. d # w \<in> L}"

text \<open>Pattern builders: a literal text, a list of alternatives, \<open>r?\<close>, \<open>r{n}\<close>, \<open>r{n,m}\<close>, \<open>r{n,}\<close>.\<close>

definition lit :: "string \<Rightarrow> rx" where
  "lit s = foldr (\<lambda>c r. RSeq (RChr c) r) s REps"

definition alts :: "rx list \<Rightarrow> rx" where
  "alts rs = foldr RAlt rs RNone"

definition opt :: "rx \<Rightarrow> rx" where
  "opt r = RAlt r REps"

fun rep :: "nat \<Rightarrow> rx \<Rightarrow> rx" where
  "rep 0 r = REps"
| "rep (Suc n) r = RSeq r (rep n r)"

fun repUpTo :: "nat \<Rightarrow> rx \<Rightarrow> rx" where
  "repUpTo 0 r = REps"
| "repUpTo (Suc n) r = opt (RSeq r (repUpTo n r))"

definition repRange :: "nat \<Rightarrow> nat \<Rightarrow> rx \<Rightarrow> rx" where
  "repRange n m r = RSeq (rep n r) (repUpTo (m - n) r)"

definition repAtLeast :: "nat \<Rightarrow> rx \<Rightarrow> rx" where
  "repAtLeast n r = RSeq (rep n r) (RStar r)"

text \<open>
  A regular expression object: the pattern, the flag \<open>i\<close>, and whether the pattern ends
  with the anchor \<open>$\<close>. None of the expressions tested has the flag \<open>g\<close>, so \<open>test\<close> keeps no
  state.
\<close>

record regexp =
  pattern :: rx
  ignoreCase :: bool
  endAnchored :: bool

definition anyText :: rx where
  "anyText = RStar (RNot [])"

definition test :: "regexp \<Rightarrow> string \<Rightarrow> bool" where
  "test re s =
     matches (ignoreCase re)
       (RSeq anyText (if endAnchored re then pattern re else RSeq (pattern re) anyText)) s"

definition regex :: "rx \<Rightarrow> regexp" where
  "regex r = \<lparr>pattern = r, ignoreCase = False, endAnchored = False\<rparr>"

definition regex_i :: "rx \<Rightarrow> regexp" where
  "regex_i r = \<lparr>pattern = r, ignoreCase = True, endAnchored = False\<rparr>"

definition regex_i_end :: "rx \<Rightarrow> regexp" where
  "regex_i_end r = \<lparr>pattern = r, ignoreCase = True, endAnchored = True\<rparr>"


section \<open>Constants and helpers\<close>

text \<open>\<open>CONSTANTS.PATTERNS.SHORT_URL\<close>: \<open>/bit\.ly|tinyurl|goo\.gl|ow\.ly|t\.co|short\.link/i\<close>.\<close>

definition SHORT_URL :: regexp where
  "SHORT_URL = regex_i (alts [lit ''bit.ly'', lit ''tinyurl'', lit ''goo.gl'', lit ''ow.ly'',
     lit ''t.co'', lit ''short.link''])"

text \<open>
  \<open>Helpers.extractDomain\<close>: \<open>null\<close> for an empty address; otherwise the group of the leftmost
  match of \<open>/@(.+)$/\<close>, lower-cased: the text behind the first \<open>@\<close> whose rest, up to the end
  of the string, is not empty and has no line terminator.
\<close>

fun matchAtDomain :: "string \<Rightarrow> string option" where
  "matchAtDomain [] = None"
| "matchAtDomain (c # cs) =
     (if c = CHR ''@'' \<and> cs \<noteq> [] \<and> \<not> (\<exists>d \<in> set cs. isLineTerminator d) then Some cs
      else matchAtDomain cs)"

definition extractDomain :: "string \<Rightarrow> string option" where
  "extractDomain addr =
     (if addr = [] then None
      else (case matchAtDomain addr of None \<Rightarrow> None | Some m \<Rightarrow> Some (toLowerCase m)))"

text \<open>A template literal prints \<open>null\<close> for a missing domain.\<close>

definition template :: "string option \<Rightarrow> string" where
  "template d = (case d of None \<Rightarrow> ''null'' | Some s \<Rightarrow> s)"


section \<open>The platform\<close>

text \<open>
  What the engine asks of the browser is a parameter of the model:
  \<^item> \<open>fetch_dns name type\<close>: the DNS-over-HTTPS request; the fetch is rejected, or there is a
    response with its \<open>ok\<close> flag and its body: \<open>None\<close> when the body is not JSON, otherwise
    the \<open>Answer\<close> member, \<open>None\<close> when absent;
  \<^item> \<open>fetch_head url\<close>: the \<open>HEAD\<close> request following redirects: \<open>None\<close> when rejected,
    otherwise \<open>response.url\<close>;
  \<^item> \<open>parse_url s\<close>: \<open>new URL(s)\<close>, \<open>None\<close> when it throws;
  \<^item> \<open>message e\<close>: the text of an error object.
\<close>

record dns_answer =
  data :: "string option"
  priority :: "int option"

datatype dns_fetch =
    FetchRejected
  | FetchResponse bool "dns_answer list option option"

record url_obj =
  protocol :: string
  hostname :: string
  pathname :: string
  search :: string

datatype js_error = InvalidURL | NullProperty string

record env =
  fetch_dns :: "string \<Rightarrow> string \<Rightarrow> dns_fetch"
  fetch_head :: "string \<Rightarrow> string option"
  parse_url :: "string \<Rightarrow> url_obj option"
  message :: "js_error \<Rightarrow> string"


section \<open>Domain Trust Resolver\<close>

text \<open>\<open>resolve\<close>: every failure (rejected fetch, response not ok, body not JSON) gives \<open>[]\<close>.\<close>

definition resolve :: "env \<Rightarrow> string \<Rightarrow> string \<Rightarrow> dns_answer list" where
  "resolve e dn ty =
     (case fetch_dns e dn ty of
        FetchRejected \<Rightarrow> []
      | FetchResponse ok body \<Rightarrow>
          if \<not> ok then []
          else (case body of
                  None \<Rightarrow> []
                | Some None \<Rightarrow> []
                | Some (Some answer) \<Rightarrow> answer))"

text \<open>\<open>r.data && r.data.includes(marker)\<close>: a record without data, or with empty data, is skipped.\<close>

definition dataIncludes :: "string \<Rightarrow> dns_answer \<Rightarrow> bool" where
  "dataIncludes marker r =
     (case data r of None \<Rightarrow> False | Some d \<Rightarrow> d \<noteq> [] \<and> includes_str d marker)"

text \<open>
  \<open>checkSPF\<close> and \<open>checkDMARC\<close>. The record \<open>find\<close> returns has its data, so the branch
  for a record without data is never taken; \<open>resolve\<close> does not throw, so neither is the
  \<open>catch\<close>, whose answer is \<open>fail\<close> as well.
\<close>

definition checkSPF :: "env \<Rightarrow> string option \<Rightarrow> string" where
  "checkSPF e dn =
     (let records = resolve e (template dn) ''TXT''
      in case find (dataIncludes ''v=spf1'') records of
           None \<Rightarrow> ''fail''
         | Some spfRecord \<Rightarrow>
             (case data spfRecord of
                None \<Rightarrow> ''fail''
              | Some spfData \<Rightarrow>
                  if includes_str spfData ''~all'' \<or> includes_str spfData ''-all''
                    then ''pass''
                  else ''neutral''))"

text \<open>
  The group of the leftmost match of \<open>/p=([^;]+)/\<close>: behind the first \<open>p=\<close> that a character
  other than \<open>;\<close> follows, the characters up to the next \<open>;\<close>.
\<close>

fun policyMatch :: "string \<Rightarrow> string option" where
  "policyMatch [] = None"
| "policyMatch (c # cs) =
     (if prefix ''p='' (c # cs) \<and> takeWhile (\<lambda>x. x \<noteq> CHR '';'') (drop 2 (c # cs)) \<noteq> []
        then Some (takeWhile (\<lambda>x. x \<noteq> CHR '';'') (drop 2 (c # cs)))
      else policyMatch cs)"

definition checkDMARC :: "env \<Rightarrow> string option \<Rightarrow> string" where
  "checkDMARC e dn =
     (let dmarcDomain = ''_dmarc.'' @ template dn;
          records = resolve e dmarcDomain ''TXT''
      in case find (dataIncludes ''v=DMARC1'') records of
           None \<Rightarrow> ''fail''
         | Some dmarcRecord \<Rightarrow>
             (case data dmarcRecord of
                None \<Rightarrow> ''fail''
              | Some dmarcData \<Rightarrow>
                  (let policy = (case policyMatch dmarcData of None \<Rightarrow> ''none'' | Some p \<Rightarrow> p)
                   in if policy = ''reject'' \<or> policy = ''quarantine'' then ''pass''
                      else ''neutral'')))"

definition getMXRecords :: "env \<Rightarrow> string option \<Rightarrow> mx_record list" where
  "getMXRecords e dn =
     sort_key mx_priority
       (map (\<lambda>r. \<lparr>exchange = data r,
                   mx_priority = (case priority r of None \<Rightarrow> 0 | Some p \<Rightarrow> p)\<rparr>)
            (resolve e (template dn) ''MX''))"


section \<open>Domain Reputation Heuristics\<close>

definition suspiciousTLDs :: "string list" where
  "suspiciousTLDs = [''.tk'', ''.ml'', ''.ga'', ''.cf'', ''.gq'', ''.top'', ''.xyz'', ''.club'',
     ''.work'', ''.info'', ''.click'', ''.country'']"

record threat_check =
  safe :: bool
  reason :: "string option"

text \<open>
  \<open>checkURL\<close>: the static dangerous patterns, tested in order against the URL text: the
  short-link pattern, \<open>/bit\.do/i\<close>, \<open>/tny\.im/i\<close>, \<open>/goo\.gl\/[^\/]{6,}/i\<close>,
  \<open>/(\d{1,3}\.){3}\d{1,3}/\<close> and one end-anchored pattern for each risky top-level domain.
\<close>

definition dangerousPatterns :: "regexp list" where
  "dangerousPatterns =
     [SHORT_URL,
      regex_i (lit ''bit.do''),
      regex_i (lit ''tny.im''),
      regex_i (RSeq (lit ''goo.gl/'') (repAtLeast 6 (RNot ''/''))),
      regex (RSeq (rep 3 (RSeq (repRange 1 3 (RCls digits)) (RChr (CHR ''.''))))
                  (repRange 1 3 (RCls digits)))] @
     map (\<lambda>tld. regex_i_end (lit tld)) suspiciousTLDs"

definition checkURL :: "string \<Rightarrow> threat_check" where
  "checkURL u =
     (if \<exists>p \<in> set dangerousPatterns. test p u
        then \<lparr>safe = False, reason = Some ''Suspicious URL pattern detected''\<rparr>
      else \<lparr>safe = True, reason = None\<rparr>)"

record domain_check =
  dc_suspicious :: bool
  dc_reasons :: "string list"

definition suspiciousNamePatterns :: "string list" where
  "suspiciousNamePatterns =
     [''-secure'', ''-login'', ''-verify'', ''-account'', ''update-'', ''support-'']"

definition checkDomain :: "string \<Rightarrow> domain_check" where
  "checkDomain dn =
     (let isSuspicious = (\<exists>tld \<in> set suspiciousTLDs. endsWith dn tld);
          isShort = (length dn < 5);
          tooManySubdomains = (length (split_on (CHR ''.'') dn) > 4);
          lowered = toLowerCase dn;
          hasSuspiciousName = (\<exists>p \<in> set suspiciousNamePatterns. includes_str lowered p)
      in \<lparr>dc_suspicious = (isSuspicious \<or> isShort \<or> tooManySubdomains \<or> hasSuspiciousName),
          dc_reasons =
            (if isSuspicious then [''Suspicious TLD''] else []) @
            (if isShort then [''Very short domain''] else []) @
            (if tooManySubdomains then [''Too many subdomains''] else []) @
            (if hasSuspiciousName then [''Suspicious domain naming (e.g. login/secure)'']
             else [])\<rparr>)"

text \<open>The country table, looked up by its own keys; the name of \<open>tr\<close> is in UTF-8.\<close>

definition tldCountryMap :: "(string \<times> string) list" where
  "tldCountryMap =
     [(''us'', ''United States''), (''uk'', ''United Kingdom''), (''de'', ''Germany''),
      (''fr'', ''France''), (''es'', ''Spain''), (''it'', ''Italy''), (''nl'', ''Netherlands''),
      (''be'', ''Belgium''), (''se'', ''Sweden''), (''no'', ''Norway''), (''dk'', ''Denmark''),
      (''fi'', ''Finland''), (''pl'', ''Poland''), (''ru'', ''Russia''), (''br'', ''Brazil''),
      (''ca'', ''Canada''), (''au'', ''Australia''), (''nz'', ''New Zealand''),
      (''in'', ''India''), (''jp'', ''Japan''), (''cn'', ''China''), (''kr'', ''South Korea''),
      (''mx'', ''Mexico''), (''ch'', ''Switzerland''), (''at'', ''Austria''),
      (''ie'', ''Ireland''), (''pt'', ''Portugal''),
      (''tr'', ''T'' @ [CHR 0xC3, CHR 0xBC] @ ''rkiye''),
      (''za'', ''South Africa''), (''sg'', ''Singapore''), (''hk'', ''Hong Kong''),
      (''tw'', ''Taiwan''),
      (''ai'', ''Anguilla ('' @ [CHR 0x22] @ ''.ai'' @ [CHR 0x22] @ '' hosting)''),
      (''io'', ''British Indian Ocean Territory ('' @ [CHR 0x22] @ ''.io'' @ [CHR 0x22] @
              '' hosting)''),
      (''com'', ''Generic (US-based services often use .com)''),
      (''net'', ''Generic (US-based services often use .net)''),
      (''org'', ''Generic (US-based services often use .org)'')]"

definition majorProviders :: "string list" where
  "majorProviders = [''gmail.com'', ''googlemail.com'', ''outlook.com'', ''hotmail.com'',
     ''live.com'', ''yahoo.com'', ''icloud.com'']"

text \<open>\<open>/\d{4}|temp|test|fake/i\<close> and \<open>/(free|bonus|promo|deal|giveaway)/i\<close>.\<close>

definition newDomainPatterns :: regexp where
  "newDomainPatterns =
     regex_i (alts [rep 4 (RCls digits), lit ''temp'', lit ''test'', lit ''fake''])"

definition marketingPatterns :: regexp where
  "marketingPatterns =
     regex_i (alts [lit ''free'', lit ''bonus'', lit ''promo'', lit ''deal'', lit ''giveaway''])"

text \<open>
  \<open>getDomainInfo\<close>: for a missing domain \<open>domain.toLowerCase()\<close> throws inside the \<open>try\<close>, and
  the \<open>catch\<close> returns the two-field object.
\<close>

definition getDomainInfo :: "string option \<Rightarrow> domain_info" where
  "getDomainInfo dn =
     (case dn of
        None \<Rightarrow> \<lparr>age = ''Unknown'', registrar = None, country = None, blacklisted = None,
                  suspicious = False\<rparr>
      | Some d \<Rightarrow>
          (let isLikelyNew = test newDomainPatterns d;
               hasAggressiveBranding = test marketingPatterns d;
               tld = last (split_on (CHR ''.'') (toLowerCase d));
               ctry = (case map_of tldCountryMap tld of None \<Rightarrow> ''Unknown'' | Some c \<Rightarrow> c);
               loweredDomain = toLowerCase d
           in if loweredDomain \<in> set majorProviders
                then \<lparr>age = ''Established provider (age not checked locally)'',
                      registrar = Some ''Major email provider (local analysis only)'',
                      country = Some ctry, blacklisted = Some False, suspicious = False\<rparr>
              else \<lparr>age = (if isLikelyNew then ''Likely new domain''
                            else ''Not available (local analysis only)''),
                    registrar = Some ''Not available (local analysis only)'',
                    country = Some ctry, blacklisted = Some False,
                    suspicious = (isLikelyNew \<or> hasAggressiveBranding)\<rparr>))"

definition expandURL :: "env \<Rightarrow> string \<Rightarrow> string" where
  "expandURL e shortUrl =
     (case fetch_head e shortUrl of
        None \<Rightarrow> shortUrl
      | Some u \<Rightarrow> if u = [] then shortUrl else u)"


section \<open>URL Risk Analyzer\<close>

text \<open>\<open>checkHomoglyphs\<close>: a character outside \<open>\x00-\x7F\<close> in the host name.\<close>

definition isAscii :: "char \<Rightarrow> bool" where
  "isAscii c = (\<not> digit7 c)"

definition checkHomoglyphs :: "env \<Rightarrow> string \<Rightarrow> bool" where
  "checkHomoglyphs e u =
     (case parse_url e u of
        None \<Rightarrow> False
      | Some urlObj \<Rightarrow> (\<exists>c \<in> set (hostname urlObj). \<not> isAscii c))"

text \<open>The checks of \<open>checkUrlStructure\<close>, one definition for each \<open>if\<close> of the source.\<close>

definition ipPattern :: regexp where
  "ipPattern =
     regex (RSeq (repRange 1 3 (RCls digits)) (RSeq (RChr (CHR ''.''))
           (RSeq (repRange 1 3 (RCls digits)) (RSeq (RChr (CHR ''.''))
           (RSeq (repRange 1 3 (RCls digits)) (RSeq (RChr (CHR ''.''))
           (repRange 1 3 (RCls digits))))))))"

definition usesIpAddress :: "url_obj \<Rightarrow> bool" where
  "usesIpAddress urlObj = test ipPattern (hostname urlObj)"

definition hasSuspiciousTLD :: "url_obj \<Rightarrow> bool" where
  "hasSuspiciousTLD urlObj = (\<exists>tld \<in> set suspiciousTLDs. endsWith (hostname urlObj) tld)"

definition isPunycode :: "url_obj \<Rightarrow> bool" where
  "isPunycode urlObj =
     (startsWith (hostname urlObj) ''xn--'' \<or> includes_str (hostname urlObj) ''.xn--'')"

definition hasTooManySubdomains :: "url_obj \<Rightarrow> bool" where
  "hasTooManySubdomains urlObj = (length (split_on (CHR ''.'') (hostname urlObj)) > 4)"

definition urlKeywords :: "string list" where
  "urlKeywords = [''login'', ''verify'', ''account'', ''secure'', ''banking'', ''paypal'',
     ''reset-password'', ''password-reset'', ''update-account'', ''secure-login'',
     ''giftcard'', ''crypto'', ''bitcoin'', ''wallet'', ''invoice'', ''payment-confirmation'']"

definition foundKeywords :: "url_obj \<Rightarrow> string list" where
  "foundKeywords urlObj =
     (let combined = toLowerCase (hostname urlObj @ pathname urlObj @ search urlObj)
      in filter (\<lambda>k. includes_str (toLowerCase combined) k) urlKeywords)"

definition containsAt :: "string \<Rightarrow> bool" where
  "containsAt u = includes_str u ''@''"

definition notHttps :: "url_obj \<Rightarrow> bool" where
  "notHttps urlObj = (protocol urlObj = ''http:'')"

text \<open>
  The last check: \<open>pathAndQuery.length > 80\<close>, then \<open>lettersOnly\<close> is \<open>pathAndQuery\<close> without
  the characters outside \<open>a-zA-Z\<close>, and the flag needs \<open>lettersOnly.length > 40\<close> and
  \<open>/[a-zA-Z]{30,}/.test(lettersOnly)\<close>.
\<close>

definition lettersRun :: regexp where
  "lettersRun = regex (repAtLeast 30 (RCls (lowerLetters @ upperLetters)))"

definition longRandomPath :: "url_obj \<Rightarrow> bool" where
  "longRandomPath urlObj =
     (let pathAndQuery = pathname urlObj @ search urlObj
      in if length pathAndQuery > 80
           then (let lettersOnly = filter isLetter pathAndQuery
                 in length lettersOnly > 40 \<and> test lettersRun lettersOnly)
         else False)"

definition flagIf :: "bool \<Rightarrow> string \<Rightarrow> string list" where
  "flagIf c s = (if c then [s] else [])"

record structure_check =
  st_suspicious :: bool
  st_reasons :: "string list"

definition checkUrlStructure :: "env \<Rightarrow> string \<Rightarrow> structure_check" where
  "checkUrlStructure e u =
     (case parse_url e u of
        None \<Rightarrow> \<lparr>st_suspicious = False, st_reasons = []\<rparr>
      | Some urlObj \<Rightarrow>
          \<lparr>st_suspicious =
             (usesIpAddress urlObj \<or> hasSuspiciousTLD urlObj \<or> isPunycode urlObj \<or>
              hasTooManySubdomains urlObj \<or> foundKeywords urlObj \<noteq> [] \<or> containsAt u \<or>
              notHttps urlObj \<or> longRandomPath urlObj),
           st_reasons =
             flagIf (usesIpAddress urlObj) ''URL uses IP address'' @
             flagIf (hasSuspiciousTLD urlObj) ''Suspicious TLD'' @
             flagIf (isPunycode urlObj) ''Punycode domain (possible homograph attack)'' @
             flagIf (hasTooManySubdomains urlObj) ''Too many subdomains'' @
             flagIf (foundKeywords urlObj \<noteq> [])
               (''Suspicious keywords: '' @ join '', '' (foundKeywords urlObj)) @
             flagIf (containsAt u) ''URL contains @ symbol'' @
             flagIf (notHttps urlObj) ''Not using HTTPS'' @
             flagIf (longRandomPath urlObj) ''Very long randomized URL path''\<rparr>)"

text \<open>
  \<open>analyzeUrl\<close>. The body of its \<open>try\<close> is \<open>analyzeUrl_try\<close>: the short-link expansion (which
  cannot fail: \<open>expandURL\<close> catches), then \<open>new URL(finalUrl)\<close>, the one statement that can
  throw, then the four checks and the score. The arrow of the redirect text is U+2192,
  here its three UTF-8 bytes.
\<close>

definition arrow :: string where
  "arrow = [CHR 0x20, CHR 0xE2, CHR 0x86, CHR 0x92, CHR 0x20]"

definition expandShortUrl :: "env \<Rightarrow> string \<Rightarrow> string \<times> string option" where
  "expandShortUrl e u =
     (if test SHORT_URL u
        then (let expanded = expandURL e u
              in if expanded \<noteq> [] \<and> expanded \<noteq> u
                   then (expanded, Some (u @ arrow @ expanded))
                 else (u, None))
      else (u, None))"

definition analyzeUrl_try :: "env \<Rightarrow> string \<Rightarrow> js_error + url_result" where
  "analyzeUrl_try e u =
     (let finalUrl = fst (expandShortUrl e u)
      in case parse_url e finalUrl of
           None \<Rightarrow> Inl InvalidURL
         | Some urlObj \<Rightarrow>
             (let homoglyph = checkHomoglyphs e finalUrl;
                  structure = checkUrlStructure e finalUrl;
                  threatCheck = checkURL finalUrl;
                  domainCheck = checkDomain (hostname urlObj);
                  total =
                    (if homoglyph then 40 else 0) +
                    (if st_suspicious structure then 30 else 0) +
                    (if \<not> safe threatCheck then 50 else 0) +
                    (if dc_suspicious domainCheck then 20 else 0)
              in Inr \<lparr>url = u, resolvedUrl = Some finalUrl, dangerous = (total \<ge> 50),
                      riskScore = total,
                      flags =
                        flagIf homoglyph ''Homoglyph attack detected'' @
                        (if st_suspicious structure then st_reasons structure else []) @
                        (if \<not> safe threatCheck
                           then [case reason threatCheck of
                                   None \<Rightarrow> ''Flagged as suspicious'' | Some r \<Rightarrow> r]
                         else []) @
                        (if dc_suspicious domainCheck then dc_reasons domainCheck else []),
                      redirects = snd (expandShortUrl e u)\<rparr>))"

definition unableToAnalyze :: "string \<Rightarrow> url_result" where
  "unableToAnalyze u =
     \<lparr>url = u, resolvedUrl = None, dangerous = False, riskScore = 0,
      flags = [''Unable to analyze''], redirects = None\<rparr>"

text \<open>The promise of the \<open>async\<close> function: fulfilled by the \<open>try\<close> or by the \<open>catch\<close>.\<close>

definition analyzeUrl :: "env \<Rightarrow> string \<Rightarrow> js_error + url_result" where
  "analyzeUrl e u =
     (case analyzeUrl_try e u of
        Inl err \<Rightarrow> Inr (unableToAnalyze u)
      | Inr r \<Rightarrow> Inr r)"

text \<open>The value that promise is fulfilled with.\<close>

definition urlOutcome :: "env \<Rightarrow> string \<Rightarrow> url_result" where
  "urlOutcome e u = (case analyzeUrl_try e u of Inl err \<Rightarrow> unableToAnalyze u | Inr r \<Rightarrow> r)"

text \<open>\<open>Promise.all\<close>: rejected with the first rejection, else fulfilled with all values.\<close>

fun promiseAll :: "(js_error + 'a) list \<Rightarrow> js_error + 'a list" where
  "promiseAll [] = Inr []"
| "promiseAll (Inl err # ps) = Inl err"
| "promiseAll (Inr v # ps) =
     (case promiseAll ps of Inl err \<Rightarrow> Inl err | Inr vs \<Rightarrow> Inr (v # vs))"

definition analyzeUrls :: "env \<Rightarrow> string list \<Rightarrow> url_analysis" where
  "analyzeUrls e us =
     (if us = [] then \<lparr>urls = [], dangerousUrls = [], dangerousCount = 0, url_error = None\<rparr>
      else (case promiseAll (map (analyzeUrl e) (take 10 us)) of
              Inl err \<Rightarrow>
                \<lparr>urls = [], dangerousUrls = [], dangerousCount = 0,
                 url_error = Some (message e err)\<rparr>
            | Inr urlResults \<Rightarrow>
                (let dangerousOnes = map url (filter dangerous urlResults)
                 in \<lparr>urls = urlResults, dangerousUrls = dangerousOnes,
                     dangerousCount = length dangerousOnes, url_error = None\<rparr>)))"


section \<open>Content Pattern Analyzer\<close>

record email_data =
  sender :: string
  subject :: string
  body :: string
  ed_urls :: "string list"
  ed_attachments :: "attachment list"
  ed_metadata :: "metadata option"

definition seqs :: "rx list \<Rightarrow> rx" where
  "seqs rs = foldr RSeq rs REps"

definition words :: "string list \<Rightarrow> rx" where
  "words ws = alts (map lit ws)"

definition contentPatterns :: "(regexp \<times> int \<times> string) list" where
  "contentPatterns =
     [(regex_i (words [''urgent'', ''immediately'', ''act now'', ''limited time'']),
         15, ''Urgency manipulation''),
      (regex_i (words [''verify your account'', ''confirm your identity'']),
         20, ''Account verification phishing''),
      (regex_i (words [''suspended'', ''locked'', ''restricted'', ''terminated'']),
         18, ''Fear-based manipulation''),
      (regex_i (words [''click here'', ''click below'']), 10, ''Action pressure''),
      (regex_i (words [''congratulations'', ''you'' @ [CHR 0x27] @ ''ve won'', ''prize'',
                       ''lottery'']),
         15, ''Prize scam''),
      (regex_i (words [''password'', ''credential'', ''authentication'']),
         20, ''Credential harvesting''),
      (regex_i (words [''bank'', ''credit card'', ''payment'', ''billing'']),
         15, ''Financial information request''),
      (regex_i (seqs [lit ''dear '', words [''customer'', ''user'', ''member'']]),
         10, ''Generic greeting''),
      (regex_i (alts [lit ''invoice'', lit ''payment due'',
                      seqs [lit ''outstanding '', words [''invoice'', ''balance'']],
                      lit ''past due'']),
         15, ''Invoice or payment pressure''),
      (regex_i (words [''bitcoin'', ''crypto'', ''usdt'', ''ethereum'', ''wallet'']),
         20, ''Cryptocurrency-related request''),
      (regex_i (words [''gift card'', ''itunes card'', ''google play card'', ''steam card'']),
         20, ''Gift card scam indicators''),
      (regex_i (words [''wire transfer'', ''swift'', ''iban'', ''routing number'']),
         20, ''Wire transfer request''),
      (regex_i (seqs [words [''unusual'', ''suspicious''], lit '' '',
                      alts [seqs [lit ''sign'', opt (RCls ''- ''), lit ''in''],
                            lit ''login'']]),
         18, ''Unusual login security alert''),
      (regex_i (seqs [words [''mailbox'', ''storage''], RStar RDot,
                      words [''full'', ''almost full'', ''quota'']]),
         15, ''Mailbox quota phishing'')]"

definition brands :: "string list" where
  "brands = [''paypal'', ''amazon'', ''apple'', ''microsoft'', ''google'', ''bank'',
     ''netflix'', ''facebook'', ''instagram'', ''whatsapp'', ''uber'', ''dhl'', ''fedex'']"

text \<open>The \<open>for\<close> loop over the patterns: score and flags of the matching ones, in order.\<close>

definition patternScore :: "string \<Rightarrow> int" where
  "patternScore txt = sum_list (map (\<lambda>(re, w, f). w) (filter (\<lambda>(re, w, f). test re txt) contentPatterns))"

definition patternFlags :: "string \<Rightarrow> string list" where
  "patternFlags txt = map (\<lambda>(re, w, f). f) (filter (\<lambda>(re, w, f). test re txt) contentPatterns)"

text \<open>The five metadata signals, as (condition, weight, flag), in the source's order.\<close>

definition metadataSignals :: "metadata \<Rightarrow> (bool \<times> int \<times> string) list" where
  "metadataSignals md =
     [(hasAttachments md \<and> num_gt (attachmentCount md) 3, 5,
         ''Multiple attachments (unusual)''),
      (num_gt (urlCount md) 5, 10, ''Many embedded links (suspicious)''),
      (num_lt (bodyLength md) 80 \<and> num_gt (urlCount md) 0, 15,
         ''Very short body with links (suspicious)''),
      (isReply md = Some False \<and> isForward md = Some False \<and> num_gt (recipientCount md) 10,
         5, ''Sent to many recipients''),
      (num_gt (hasImages md) 5, 5, ''Many images in email'')]"

text \<open>The text searched: subject, a blank, body, lower-cased.\<close>

definition contentText :: "email_data \<Rightarrow> string" where
  "contentText ed = toLowerCase (subject ed @ '' '' @ body ed)"

definition mentionedBrand :: "email_data \<Rightarrow> string option" where
  "mentionedBrand ed = find (\<lambda>brand. includes_str (contentText ed) brand) brands"

text \<open>
  The brand check \<open>mentionedBrand && !senderDomain.includes(mentionedBrand)\<close>. When a brand
  is mentioned, \<open>senderDomain.includes\<close> is evaluated; with \<open>senderDomain\<close> null it throws a
  \<open>TypeError\<close>.
\<close>

definition checkImpersonation :: "email_data \<Rightarrow> js_error + bool" where
  "checkImpersonation ed =
     (case mentionedBrand ed of
        None \<Rightarrow> Inr False
      | Some brand \<Rightarrow>
          (case extractDomain (sender ed) of
             None \<Rightarrow> Inl (NullProperty ''includes'')
           | Some d \<Rightarrow> Inr (\<not> includes_str d brand)))"

text \<open>The result object, given the outcome \<open>imp\<close> of the brand check.\<close>

definition contentResult :: "email_data \<Rightarrow> bool \<Rightarrow> content_result" where
  "contentResult ed imp =
     (let md = (case ed_metadata ed of None \<Rightarrow> empty_metadata | Some m \<Rightarrow> m);
          shortBody = (num_lt (bodyLength md) 80 \<and> num_gt (urlCount md) 0);
          signals = filter fst (metadataSignals md);
          s1 = patternScore (contentText ed) + (if imp then 30 else 0) +
               sum_list (map (\<lambda>(c, w, f). w) signals);
          s2 = (if shortBody \<and> s1 < 40 then 40 else s1)
      in \<lparr>phishingScore = min 100 s2,
          socialEngineering =
            (if s2 \<ge> 40 then ''High'' else if s2 \<ge> 20 then ''Moderate'' else ''Low''),
          impersonation = imp,
          shortBodyWithLinks = shortBody,
          content_flags =
            patternFlags (contentText ed) @
            (if imp then [''Impersonation: Mentions '' @
                          (case mentionedBrand ed of None \<Rightarrow> [] | Some b \<Rightarrow> b)]
             else []) @
            map (\<lambda>(c, w, f). f) signals\<rparr>)"

text \<open>
  \<open>analyzeContent\<close> has no \<open>try\<close>: when the brand check throws, its promise is rejected.
  The pattern loop before the check has no effect but on the score and the flags.
\<close>

definition analyzeContent :: "email_data \<Rightarrow> js_error + content_result" where
  "analyzeContent ed =
     (case checkImpersonation ed of
        Inl err \<Rightarrow> Inl err
      | Inr imp \<Rightarrow> Inr (contentResult ed imp))"


section \<open>Attachment Risk Classifier\<close>

definition dangerousExts :: "string list" where
  "dangerousExts = [''exe'', ''bat'', ''cmd'', ''scr'', ''vbs'', ''js'', ''jar'', ''msi'',
     ''ps1'', ''psm1'', ''com'', ''cpl'', ''reg'', ''hta'', ''lnk'', ''pif'', ''msc'', ''apk'',
     ''sh'']"

definition suspiciousExts :: "string list" where
  "suspiciousExts = [''zip'', ''rar'', ''7z'', ''tar'', ''gz'', ''doc'', ''docx'', ''docm'',
     ''xls'', ''xlsx'', ''xlsm'', ''ppt'', ''pptx'', ''pptm'', ''pdf'', ''iso'', ''img'']"

definition macroExts :: "string list" where
  "macroExts = [''docm'', ''xlsm'', ''pptm'']"

text \<open>
  \<open>checkAttachment\<close>: the three \<open>if\<close> statements run in the source's order, each on the
  values the previous one left in \<open>dangerous\<close>, \<open>riskScore\<close> and \<open>flags\<close>.
\<close>

type_synonym att_state = "bool \<times> int \<times> string list"

definition extensionStep :: "string \<Rightarrow> att_state" where
  "extensionStep ext =
     (if ext \<in> set dangerousExts then (True, 90, [''Dangerous file type: .'' @ ext])
      else if ext \<in> set suspiciousExts then (False, 30, [''Requires caution: .'' @ ext])
      else (False, 0, []))"

definition macroStep :: "string \<Rightarrow> att_state \<Rightarrow> att_state" where
  "macroStep ext st =
     (case st of (dang, risk, fl) \<Rightarrow>
        if ext \<in> set macroExts
          then (True, max risk 80, fl @ [''Macro-enabled Office document''])
        else (dang, risk, fl))"

definition doubleExtensionStep :: "string \<Rightarrow> att_state \<Rightarrow> att_state" where
  "doubleExtensionStep nm st =
     (case st of (dang, risk, fl) \<Rightarrow>
        if length (split_on (CHR ''.'') nm) > 2
          then (True, risk + 40, fl @ [''Double extension detected''])
        else (dang, risk, fl))"

definition checkAttachment :: "attachment \<Rightarrow> attachment_result" where
  "checkAttachment a =
    (let ext = toLowerCase (extension a);
         st = doubleExtensionStep (name a) (macroStep ext (extensionStep ext))
     in \<lparr>att_name = name a, att_extension = ext, att_dangerous = fst st,
         att_riskScore = fst (snd st), att_flags = snd (snd st)\<rparr>)"

text \<open>
  The invariant the three steps keep: a dangerous state has a score of at least 40, any
  other state a score within 0..30.
\<close>

definition att_consistent :: "att_state \<Rightarrow> bool" where
  "att_consistent st = (if fst st then 40 \<le> fst (snd st)
                        else 0 \<le> fst (snd st) \<and> fst (snd st) \<le> 30)"

text \<open>\<open>EmailParser.getFileExtension\<close>, which fills the \<open>extension\<close> of an attachment.\<close>

definition getFileExtension :: "string \<Rightarrow> string" where
  "getFileExtension filename =
     (let parts = split_on (CHR ''.'') filename
      in if length parts > 1 then toLowerCase (last parts) else [])"

definition analyzeAttachments :: "attachment list \<Rightarrow> attachment_analysis" where
  "analyzeAttachments atts =
    (if atts = [] then \<lparr>attachments = [], att_dangerousCount = 0\<rparr>
     else (let results = map checkAttachment atts
           in \<lparr>attachments = results,
               att_dangerousCount = length (filter att_dangerous results)\<rparr>))"


section \<open>Threat Score Aggregator\<close>

definition senderScore :: "analysis \<Rightarrow> int" where
  "senderScore a =
     (if spf (senderAnalysis a) \<noteq> ''pass'' then 40 else 0) +
     (if dmarc (senderAnalysis a) \<noteq> ''pass'' then 40 else 0) +
     (case domainInfo (senderAnalysis a) of
        None \<Rightarrow> 0
      | Some d \<Rightarrow> if suspicious d then 20 else 0)"

definition contentScore :: "analysis \<Rightarrow> int" where
  "contentScore a = phishingScore (contentAnalysis a)"

definition urlScore :: "analysis \<Rightarrow> int" where
  "urlScore a = (if dangerousCount (urlAnalysis a) > 0 then 80 else 0)"

definition attachmentScore :: "analysis \<Rightarrow> int" where
  "attachmentScore a = (if att_dangerousCount (attachmentAnalysis a) > 0 then 90 else 0)"

definition the_metadata :: "analysis \<Rightarrow> metadata" where
  "the_metadata a = (case metadata a of None \<Rightarrow> empty_metadata | Some m \<Rightarrow> m)"

definition combinedScore :: "analysis \<Rightarrow> int" where
  "combinedScore a =
     (if impersonation (contentAnalysis a) \<and> senderScore a > 30 then 50 else 0) +
     (if dangerousCount (urlAnalysis a) > 0
        then 40 + (if shortBodyWithLinks (contentAnalysis a) then 20 else 0)
                + (if isSpamFolder (the_metadata a) then 20 else 0)
      else 0)"

text \<open>
  The weighted total, in tenths: the weights are 0.2, 0.5, 0.4, 0.4 and 0.2. Every product
  is an integer or a half, so the double sum is exact and \<open>Math.round\<close> is
  \<^const>\<open>round_tenths\<close>.
\<close>

definition weightedTotal :: "analysis \<Rightarrow> int" where
  "weightedTotal a =
     round_tenths (senderScore a * 2 + contentScore a * 5 + urlScore a * 4 +
                   attachmentScore a * 4 + combinedScore a * 2)"

text \<open>The four override floors, in the source's order, applied to the weighted total.\<close>

definition floor1 :: "analysis \<Rightarrow> int \<Rightarrow> int" where
  "floor1 a t =
     (if socialEngineering (contentAnalysis a) = ''High'' then max t 45
      else if socialEngineering (contentAnalysis a) = ''Moderate'' then max t 30
      else t)"

definition floor2 :: "analysis \<Rightarrow> int \<Rightarrow> int" where
  "floor2 a t = (if impersonation (contentAnalysis a) then max t 60 else t)"

definition floor3 :: "analysis \<Rightarrow> int \<Rightarrow> int" where
  "floor3 a t = (if isSpamFolder (the_metadata a) then max t 40 else t)"

definition floor4 :: "analysis \<Rightarrow> int \<Rightarrow> int" where
  "floor4 a t =
     (if dangerousCount (urlAnalysis a) > 0 \<and>
         (shortBodyWithLinks (contentAnalysis a) \<or> isSpamFolder (the_metadata a))
      then max t 75 else t)"

text \<open>The total after the floors, clamped to 0..100.\<close>

definition totalScore :: "analysis \<Rightarrow> int" where
  "totalScore a = min 100 (max 0 (floor4 a (floor3 a (floor2 a (floor1 a (weightedTotal a))))))"

definition collectReasons :: "analysis \<Rightarrow> string list" where
  "collectReasons a =
     (if senderScore a > 20 then [''Sender authentication failed''] else []) @
     (if contentScore a > 30 then [''Phishing patterns detected''] else []) @
     (if urlScore a > 0
        then [string_of_nat (dangerousCount (urlAnalysis a)) @ '' dangerous URL(s)''] else []) @
     (if attachmentScore a > 0
        then [string_of_nat (att_dangerousCount (attachmentAnalysis a)) @
              '' dangerous attachment(s)''] else []) @
     (if impersonation (contentAnalysis a) then [''Impersonation attempt detected''] else []) @
     (if shortBodyWithLinks (contentAnalysis a)
        then [''Short email body with embedded links''] else []) @
     (if isSpamFolder (the_metadata a) then [''Email is in Spam folder''] else [])"

text \<open>Level and recommendation of a clamped total.\<close>

definition classify :: "int \<Rightarrow> string \<times> string" where
  "classify t =
     (if t \<ge> 61
        then (''DANGEROUS'', ''DELETE IMMEDIATELY - Do not interact with this email'')
      else if t \<ge> 31
        then (''SUSPICIOUS'', ''EXERCISE CAUTION - Verify sender before taking action'')
      else (''SAFE'', ''Email appears safe - Standard caution advised''))"

definition calculateThreatScore :: "analysis \<Rightarrow> threat_score" where
  "calculateThreatScore a =
     \<lparr>score = totalScore a,
      level = fst (classify (totalScore a)),
      recommendation = snd (classify (totalScore a)),
      reasons = take 5 (collectReasons a)\<rparr>"

section \<open>Sender analysis and the whole-email analysis\<close>

definition calculateSenderReputation :: "string \<Rightarrow> string \<Rightarrow> domain_info \<Rightarrow> string" where
  "calculateSenderReputation s d info =
     (let total = (if s = ''pass'' then 33 else 0) + (if d = ''pass'' then 33 else 0) +
                  (if \<not> suspicious info then 34 else (0::int))
      in if total \<ge> 66 then ''Good'' else if total \<ge> 33 then ''Moderate'' else ''Poor'')"

text \<open>
  \<open>analyzeSender\<close>. The three lookups catch their own failures and \<open>getDomainInfo\<close> does too,
  so no statement of the \<open>try\<close> throws and the \<open>catch\<close> object is never returned.
\<close>

definition analyzeSender :: "env \<Rightarrow> email_data \<Rightarrow> sender_result" where
  "analyzeSender e ed =
     (let dn = extractDomain (sender ed);
          md = (case ed_metadata ed of None \<Rightarrow> empty_metadata | Some m \<Rightarrow> m);
          s = checkSPF e dn;
          d = checkDMARC e dn;
          info = getDomainInfo dn
      in \<lparr>email = sender ed, domain = dn, spf = s, dkim = ''not_checked'', dmarc = d,
          mxRecords = Some (getMXRecords e dn), domainInfo = Some info,
          reputation = calculateSenderReputation s d info,
          senderRisks =
            flagIf (\<not> senderNamePresent md) ''No sender display name'' @
            flagIf (senderNamePresent md \<and> \<not> senderNameMatchesDomain md)
              ''Sender name does not match domain'' @
            flagIf (isBcc md) (''Email was BCC'' @ [CHR 0x27] @ ''d (unusual)'')\<rparr>)"

record verdict =
  threatScore :: int
  threatLevel :: string
  v_recommendation :: string
  v_reasons :: "string list"
  v_senderAnalysis :: "sender_result option"
  v_urlAnalysis :: "url_analysis option"
  v_contentAnalysis :: "content_result option"
  v_attachmentAnalysis :: "attachment_analysis option"
  v_domainInfo :: "domain_info option"
  emailMetadata :: "metadata option"
  v_error :: "string option"

text \<open>The object the \<open>catch\<close> of \<open>analyzeEmail\<close> returns.\<close>

definition errorVerdict :: "string \<Rightarrow> verdict" where
  "errorVerdict msg =
     \<lparr>threatScore = 50, threatLevel = ''SUSPICIOUS'',
      v_recommendation = ''Analysis incomplete - exercise caution'',
      v_reasons = [''Analysis error: '' @ msg],
      v_senderAnalysis = None, v_urlAnalysis = None, v_contentAnalysis = None,
      v_attachmentAnalysis = None, v_domainInfo = None, emailMetadata = None,
      v_error = Some msg\<rparr>"

text \<open>
  \<open>analyzeEmail\<close>: \<open>Promise.all\<close> of the four analyses. The sender, URL and attachment
  analyses always fulfil; when the content analysis rejects, \<open>Promise.all\<close> rejects and the
  \<open>catch\<close> answers.
\<close>

definition analyzeEmail :: "env \<Rightarrow> email_data \<Rightarrow> verdict" where
  "analyzeEmail e ed =
     (case analyzeContent ed of
        Inl err \<Rightarrow> errorVerdict (message e err)
      | Inr c \<Rightarrow>
          (let s = analyzeSender e ed;
               u = analyzeUrls e (ed_urls ed);
               a = analyzeAttachments (ed_attachments ed);
               ts = calculateThreatScore
                      \<lparr>senderAnalysis = s, urlAnalysis = u, contentAnalysis = c,
                       attachmentAnalysis = a,
                       metadata = Some (case ed_metadata ed of
                                          None \<Rightarrow> empty_metadata | Some m \<Rightarrow> m)\<rparr>
           in \<lparr>threatScore = score ts, threatLevel = level ts,
               v_recommendation = recommendation ts, v_reasons = reasons ts,
               v_senderAnalysis = Some s, v_urlAnalysis = Some u,
               v_contentAnalysis = Some c, v_attachmentAnalysis = Some a,
               v_domainInfo = domainInfo s, emailMetadata = ed_metadata ed,
               v_error = None\<rparr>))"

text \<open>
  The long-path condition as the specification words it: path and query longer than 80
  characters, and the letters-only content forming a run of at least 30 letters.
\<close>

definition claimedLongRandomPath :: "url_obj \<Rightarrow> bool" where
  "claimedLongRandomPath urlObj =
     (length (pathname urlObj @ search urlObj) > 80 \<and>
      test lettersRun (filter isLetter (pathname urlObj @ search urlObj)))"

text \<open>
  The reasons as the specification lists them: a fixed priority table of triggering
  condition and text (sender-auth failure, phishing patterns, dangerous URL count,
  dangerous attachment count, impersonation, short body with links, spam folder), the
  conditions read off the analyzer outputs and the metadata.
\<close>

definition priorityReasons :: "analysis \<Rightarrow> (bool \<times> string) list" where
  "priorityReasons a =
     [(spf (senderAnalysis a) \<noteq> ''pass'' \<or> dmarc (senderAnalysis a) \<noteq> ''pass'',
         ''Sender authentication failed''),
      (phishingScore (contentAnalysis a) > 30, ''Phishing patterns detected''),
      (dangerousCount (urlAnalysis a) > 0,
         string_of_nat (dangerousCount (urlAnalysis a)) @ '' dangerous URL(s)''),
      (att_dangerousCount (attachmentAnalysis a) > 0,
         string_of_nat (att_dangerousCount (attachmentAnalysis a)) @
           '' dangerous attachment(s)''),
      (impersonation (contentAnalysis a), ''Impersonation attempt detected''),
      (shortBodyWithLinks (contentAnalysis a), ''Short email body with embedded links''),
      (isSpamFolder (the_metadata a), ''Email is in Spam folder'')]"


section \<open>Sample inputs\<close>

text \<open>
  A short message with one dangerous link from a sender failing SPF and DMARC, outside the
  spam folder.
\<close>

definition sample_analysis :: analysis where
  "sample_analysis =
     \<lparr>senderAnalysis =
        \<lparr>email = ''alerts@paypa1-security.info'', domain = Some ''paypa1-security.info'',
         spf = ''fail'', dkim = ''not_checked'', dmarc = ''fail'', mxRecords = Some [],
         domainInfo = Some \<lparr>age = ''Not available (local analysis only)'',
           registrar = Some ''Not available (local analysis only)'',
           country = Some ''Unknown'', blacklisted = Some False, suspicious = False\<rparr>,
         reputation = ''Moderate'', senderRisks = []\<rparr>,
      urlAnalysis =
        \<lparr>urls = [\<lparr>url = ''http://10.0.0.1/a'', resolvedUrl = Some ''http://10.0.0.1/a'',
                   dangerous = True, riskScore = 80,
                   flags = [''URL uses IP address'', ''Not using HTTPS'',
                            ''Suspicious URL pattern detected''],
                   redirects = None\<rparr>],
         dangerousUrls = [''http://10.0.0.1/a''], dangerousCount = 1, url_error = None\<rparr>,
      contentAnalysis =
        \<lparr>phishingScore = 40, socialEngineering = ''High'', impersonation = False,
         shortBodyWithLinks = True,
         content_flags = [''Very short body with links (suspicious)'']\<rparr>,
      attachmentAnalysis = \<lparr>attachments = [], att_dangerousCount = 0\<rparr>,
      metadata = Some (empty_metadata\<lparr>urlCount := Some 1, bodyLength := Some 40\<rparr>)\<rparr>"

text \<open>
  A platform for the examples: three URLs the parser accepts, DNS answers for a few
  domains, every other request failing.
\<close>

definition long_letters_url :: string where
  "long_letters_url =
     ''https://example.com/'' @ replicate 45 (CHR ''a'') @ replicate 40 (CHR ''1'')"

definition mid_letters_url :: string where
  "mid_letters_url =
     ''https://example.com/'' @ replicate 35 (CHR ''a'') @ replicate 45 (CHR ''1'')"

definition long_letters_obj :: url_obj where
  "long_letters_obj =
     \<lparr>protocol = ''https:'', hostname = ''example.com'',
      pathname = ''/'' @ replicate 45 (CHR ''a'') @ replicate 40 (CHR ''1''), search = []\<rparr>"

definition mid_letters_obj :: url_obj where
  "mid_letters_obj =
     \<lparr>protocol = ''https:'', hostname = ''example.com'',
      pathname = ''/'' @ replicate 35 (CHR ''a'') @ replicate 45 (CHR ''1''), search = []\<rparr>"

definition sample_parse_url :: "string \<Rightarrow> url_obj option" where
  "sample_parse_url u =
     (if u = long_letters_url then Some long_letters_obj
      else if u = mid_letters_url then Some mid_letters_obj
      else if u = ''https://example.com/''
        then Some \<lparr>protocol = ''https:'', hostname = ''example.com'', pathname = ''/'',
                   search = []\<rparr>
      else None)"

definition txt_answer :: "string \<Rightarrow> dns_fetch" where
  "txt_answer t = FetchResponse True (Some (Some [\<lparr>data = Some t, priority = None\<rparr>]))"

definition sample_fetch_dns :: "string \<Rightarrow> string \<Rightarrow> dns_fetch" where
  "sample_fetch_dns nm ty =
     (if ty \<noteq> ''TXT'' then FetchRejected
      else if nm = ''strict.example'' then txt_answer ''v=spf1 mx -all''
      else if nm = ''open.example'' then txt_answer ''v=spf1 mx ?all''
      else if nm = ''plain.example'' then txt_answer ''site-verification=abc''
      else if nm = ''empty.example'' then FetchResponse True (Some None)
      else if nm = ''garbled.example'' then FetchResponse True None
      else if nm = ''refused.example'' then FetchResponse False None
      else FetchRejected)"

definition sample_message :: "js_error \<Rightarrow> string" where
  "sample_message err =
     (case err of
        InvalidURL \<Rightarrow> ''Invalid URL''
      | NullProperty p \<Rightarrow> ''Cannot read properties of null (reading '' @ [CHR 0x27] @ p @
                            [CHR 0x27] @ '')'')"

definition sample_env :: env where
  "sample_env =
     \<lparr>fetch_dns = sample_fetch_dns, fetch_head = (\<lambda>u. None), parse_url = sample_parse_url,
      message = sample_message\<rparr>"

text \<open>A message whose sender text has no \<open>@\<close> and whose subject names a brand.\<close>

definition no_domain_email :: email_data where
  "no_domain_email =
     \<lparr>sender = ''Security Team'', subject = ''Your paypal account'',
      body = ''Please review the attached notice.'', ed_urls = [], ed_attachments = [],
      ed_metadata = Some (empty_metadata\<lparr>urlCount := Some 0, bodyLength := Some 34\<rparr>)\<rparr>"

definition sample_exe :: attachment where
  "sample_exe = \<lparr>name = ''invoice.pdf.exe'', size = ''Unknown'', extension = ''exe''\<rparr>"

definition sample_pdf :: attachment where
  "sample_pdf = \<lparr>name = ''report.pdf'', size = ''12 KB'', extension = ''pdf''\<rparr>"


section \<open>Properties of the Threat Score Aggregator\<close>

lemma score_calculateThreatScore: "score (calculateThreatScore a) = totalScore a"
  by (simp add: calculateThreatScore_def)

lemma level_calculateThreatScore:
  "level (calculateThreatScore a) =
     (if totalScore a \<ge> 61 then ''DANGEROUS''
      else if totalScore a \<ge> 31 then ''SUSPICIOUS'' else ''SAFE'')"
  by (simp add: calculateThreatScore_def classify_def)

lemma totalScore_range: "0 \<le> totalScore a \<and> totalScore a \<le> 100"
  by (simp add: totalScore_def)

lemma sample_analysis_total: "totalScore sample_analysis = 80"
  by (simp add: totalScore_def floor1_def floor2_def floor3_def floor4_def weightedTotal_def
      round_tenths_def senderScore_def contentScore_def urlScore_def attachmentScore_def
      combinedScore_def the_metadata_def sample_analysis_def empty_metadata_def)

text \<open>
  C1: for every input of \<open>calculateThreatScore\<close> the score lies in 0..100, and the level
  is the band of the score: DANGEROUS exactly from 61, SUSPICIOUS exactly on 31..60, SAFE
  exactly up to 30.
\<close>

theorem score_range_and_level_band:
  "0 \<le> score (calculateThreatScore a) \<and> score (calculateThreatScore a) \<le> 100 \<and>
   (level (calculateThreatScore a) = ''DANGEROUS'' \<longleftrightarrow>
      score (calculateThreatScore a) \<ge> 61) \<and>
   (level (calculateThreatScore a) = ''SUSPICIOUS'' \<longleftrightarrow>
      31 \<le> score (calculateThreatScore a) \<and> score (calculateThreatScore a) \<le> 60) \<and>
   (level (calculateThreatScore a) = ''SAFE'' \<longleftrightarrow> score (calculateThreatScore a) \<le> 30)"
  using totalScore_range [of a]
  by (simp add: level_calculateThreatScore score_calculateThreatScore)

theorem score_range_and_level_band_witness:
  "score (calculateThreatScore sample_analysis) = 80 \<and>
   level (calculateThreatScore sample_analysis) = ''DANGEROUS''"
  using score_range_and_level_band [of sample_analysis]
  by (simp add: score_calculateThreatScore sample_analysis_total)

lemma floor4_ge_75:
  "dangerousCount (urlAnalysis a) > 0 \<Longrightarrow>
   shortBodyWithLinks (contentAnalysis a) \<or> isSpamFolder (the_metadata a) \<Longrightarrow>
   floor4 a t \<ge> 75"
  by (simp add: floor4_def)

text \<open>
  C2: when there is a dangerous URL and the body is short with links or the message is in
  the spam folder, the score is at least 75 and the level is DANGEROUS.
\<close>

theorem dangerous_url_floor_75:
  assumes "dangerousCount (urlAnalysis a) > 0"
    and "shortBodyWithLinks (contentAnalysis a) \<or> isSpamFolder (the_metadata a)"
  shows "score (calculateThreatScore a) \<ge> 75 \<and>
         level (calculateThreatScore a) = ''DANGEROUS''"
proof -
  have "floor4 a (floor3 a (floor2 a (floor1 a (weightedTotal a)))) \<ge> 75"
    using assms by (rule floor4_ge_75)
  then have "totalScore a \<ge> 75"
    by (simp add: totalScore_def)
  then show ?thesis
    by (simp add: level_calculateThreatScore score_calculateThreatScore)
qed

theorem dangerous_url_floor_75_witness:
  "dangerousCount (urlAnalysis sample_analysis) > 0 \<and>
   shortBodyWithLinks (contentAnalysis sample_analysis) \<and>
   score (calculateThreatScore sample_analysis) \<ge> 75 \<and>
   level (calculateThreatScore sample_analysis) = ''DANGEROUS''"
proof -
  have d: "dangerousCount (urlAnalysis sample_analysis) > 0"
    by (simp add: sample_analysis_def)
  have s: "shortBodyWithLinks (contentAnalysis sample_analysis)"
    by (simp add: sample_analysis_def)
  from s have s': "shortBodyWithLinks (contentAnalysis sample_analysis) \<or>
      isSpamFolder (the_metadata sample_analysis)" ..
  show ?thesis
    using d s dangerous_url_floor_75 [OF d s'] by simp
qed

lemma round_tenths_mono: "m \<le> n \<Longrightarrow> round_tenths m \<le> round_tenths n"
  by (simp add: round_tenths_def zdiv_mono1)

lemma floor1_mono:
  "t \<le> t' \<Longrightarrow> contentAnalysis a' = contentAnalysis a \<Longrightarrow> floor1 a t \<le> floor1 a' t'"
  by (auto simp: floor1_def)

lemma floor2_mono:
  "t \<le> t' \<Longrightarrow> contentAnalysis a' = contentAnalysis a \<Longrightarrow> floor2 a t \<le> floor2 a' t'"
  by (auto simp: floor2_def)

lemma floor3_mono:
  "t \<le> t' \<Longrightarrow> (isSpamFolder (the_metadata a) \<longrightarrow> isSpamFolder (the_metadata a')) \<Longrightarrow>
   floor3 a t \<le> floor3 a' t'"
  by (auto simp: floor3_def)

lemma floor4_mono:
  "t \<le> t' \<Longrightarrow> (isSpamFolder (the_metadata a) \<longrightarrow> isSpamFolder (the_metadata a')) \<Longrightarrow>
   (dangerousCount (urlAnalysis a) > 0 \<longrightarrow> dangerousCount (urlAnalysis a') > 0) \<Longrightarrow>
   contentAnalysis a' = contentAnalysis a \<Longrightarrow>
   floor4 a t \<le> floor4 a' t'"
  by (auto simp: floor4_def)

text \<open>
  The total never goes down when, everything else equal, the spam flag is raised or a
  dangerous URL appears: every component score and every floor is monotone in both.
\<close>

lemma totalScore_mono:
  assumes s: "senderAnalysis a' = senderAnalysis a"
    and c: "contentAnalysis a' = contentAnalysis a"
    and t: "attachmentAnalysis a' = attachmentAnalysis a"
    and sp: "isSpamFolder (the_metadata a) \<longrightarrow> isSpamFolder (the_metadata a')"
    and dc: "dangerousCount (urlAnalysis a) > 0 \<longrightarrow> dangerousCount (urlAnalysis a') > 0"
  shows "totalScore a \<le> totalScore a'"
proof -
  have ss: "senderScore a' = senderScore a"
    by (simp add: senderScore_def s)
  have cs: "contentScore a' = contentScore a"
    by (simp add: contentScore_def c)
  have as: "attachmentScore a' = attachmentScore a"
    by (simp add: attachmentScore_def t)
  have us: "urlScore a \<le> urlScore a'"
    using dc by (simp add: urlScore_def)
  have cb: "combinedScore a \<le> combinedScore a'"
    using dc sp by (simp add: combinedScore_def ss c)
  have w: "weightedTotal a \<le> weightedTotal a'"
    unfolding weightedTotal_def using us cb
    by (intro round_tenths_mono) (simp add: ss cs as)
  have f1: "floor1 a (weightedTotal a) \<le> floor1 a' (weightedTotal a')"
    using w c by (rule floor1_mono)
  have f2: "floor2 a (floor1 a (weightedTotal a)) \<le> floor2 a' (floor1 a' (weightedTotal a'))"
    using f1 c by (rule floor2_mono)
  have f3: "floor3 a (floor2 a (floor1 a (weightedTotal a)))
          \<le> floor3 a' (floor2 a' (floor1 a' (weightedTotal a')))"
    using f2 sp by (rule floor3_mono)
  have f4: "floor4 a (floor3 a (floor2 a (floor1 a (weightedTotal a))))
          \<le> floor4 a' (floor3 a' (floor2 a' (floor1 a' (weightedTotal a'))))"
    using f3 sp dc c by (rule floor4_mono)
  show ?thesis
    unfolding totalScore_def using f4 by simp
qed

text \<open>
  C5: with the other inputs fixed, the score with \<open>isSpamFolder\<close> true is at least the score
  with \<open>isSpamFolder\<close> false, and the score with a positive \<open>dangerousCount\<close> is at least the
  score with \<open>dangerousCount\<close> 0.
\<close>

theorem score_monotone_in_spam_and_dangerous_url:
  "score (calculateThreatScore (a\<lparr>metadata := Some (m\<lparr>isSpamFolder := False\<rparr>)\<rparr>))
     \<le> score (calculateThreatScore (a\<lparr>metadata := Some (m\<lparr>isSpamFolder := True\<rparr>)\<rparr>)) \<and>
   (0 < n \<longrightarrow>
    score (calculateThreatScore (a\<lparr>urlAnalysis := u\<lparr>dangerousCount := 0\<rparr>\<rparr>))
     \<le> score (calculateThreatScore (a\<lparr>urlAnalysis := u\<lparr>dangerousCount := n\<rparr>\<rparr>)))"
proof (intro conjI impI)
  show "score (calculateThreatScore (a\<lparr>metadata := Some (m\<lparr>isSpamFolder := False\<rparr>)\<rparr>))
     \<le> score (calculateThreatScore (a\<lparr>metadata := Some (m\<lparr>isSpamFolder := True\<rparr>)\<rparr>))"
    unfolding score_calculateThreatScore
    by (rule totalScore_mono) (simp_all add: the_metadata_def)
next
  assume "0 < n"
  then show "score (calculateThreatScore (a\<lparr>urlAnalysis := u\<lparr>dangerousCount := 0\<rparr>\<rparr>))
     \<le> score (calculateThreatScore (a\<lparr>urlAnalysis := u\<lparr>dangerousCount := n\<rparr>\<rparr>))"
    unfolding score_calculateThreatScore
    by (intro totalScore_mono) (simp_all add: the_metadata_def)
qed

lemma sample_analysis_no_url_total:
  "totalScore (sample_analysis\<lparr>urlAnalysis :=
      (urlAnalysis sample_analysis)\<lparr>dangerousCount := 0\<rparr>\<rparr>) = 45"
  by (simp add: totalScore_def floor1_def floor2_def floor3_def floor4_def weightedTotal_def
      round_tenths_def senderScore_def contentScore_def urlScore_def attachmentScore_def
      combinedScore_def the_metadata_def sample_analysis_def empty_metadata_def)

lemma sample_analysis_one_url_total:
  "totalScore (sample_analysis\<lparr>urlAnalysis :=
      (urlAnalysis sample_analysis)\<lparr>dangerousCount := Suc 0\<rparr>\<rparr>) = 80"
  by (simp add: totalScore_def floor1_def floor2_def floor3_def floor4_def weightedTotal_def
      round_tenths_def senderScore_def contentScore_def urlScore_def attachmentScore_def
      combinedScore_def the_metadata_def sample_analysis_def empty_metadata_def)

theorem score_monotone_in_spam_and_dangerous_url_witness:
  "(0::nat) < Suc 0 \<and>
   score (calculateThreatScore (sample_analysis\<lparr>urlAnalysis :=
      (urlAnalysis sample_analysis)\<lparr>dangerousCount := 0\<rparr>\<rparr>)) = 45 \<and>
   score (calculateThreatScore (sample_analysis\<lparr>urlAnalysis :=
      (urlAnalysis sample_analysis)\<lparr>dangerousCount := Suc 0\<rparr>\<rparr>)) = 80 \<and>
   score (calculateThreatScore (sample_analysis\<lparr>metadata :=
      Some (empty_metadata\<lparr>isSpamFolder := False\<rparr>)\<rparr>))
     \<le> score (calculateThreatScore (sample_analysis\<lparr>metadata :=
      Some (empty_metadata\<lparr>isSpamFolder := True\<rparr>)\<rparr>))"
  using score_monotone_in_spam_and_dangerous_url
    [where a = sample_analysis and m = empty_metadata and n = "Suc 0"
       and u = "urlAnalysis sample_analysis"]
  by (simp add: score_calculateThreatScore sample_analysis_no_url_total
      sample_analysis_one_url_total)

lemma senderScore_gt_20:
  "senderScore a > 20 \<longleftrightarrow>
     spf (senderAnalysis a) \<noteq> ''pass'' \<or> dmarc (senderAnalysis a) \<noteq> ''pass''"
  by (simp add: senderScore_def split: option.splits)

lemma collectReasons_priorityReasons:
  "collectReasons a = map snd (filter fst (priorityReasons a))"
  by (simp add: collectReasons_def priorityReasons_def senderScore_gt_20 contentScore_def
      urlScore_def attachmentScore_def)

text \<open>
  C9: the reasons returned are the first five of the reasons whose triggering condition
  holds, taken in the fixed priority order; the list has at most five entries.
\<close>

theorem reasons_priority_order_first_five:
  "reasons (calculateThreatScore a) = take 5 (map snd (filter fst (priorityReasons a))) \<and>
   length (reasons (calculateThreatScore a)) \<le> 5"
  by (simp add: calculateThreatScore_def collectReasons_priorityReasons)

theorem reasons_priority_order_first_five_witness:
  "reasons (calculateThreatScore sample_analysis) =
     [''Sender authentication failed'', ''Phishing patterns detected'',
      ''1 dangerous URL(s)'', ''Short email body with embedded links'']"
  using reasons_priority_order_first_five [of sample_analysis]
  by (simp add: priorityReasons_def sample_analysis_def the_metadata_def empty_metadata_def
      string_of_nat.simps digit_char_def)


section \<open>Properties of the Attachment Risk Classifier\<close>

lemma split_on_invoice:
  "split_on (CHR ''.'') ''invoice.pdf.exe'' = [''invoice'', ''pdf'', ''exe'']"
  by simp

lemma toLowerCase_exe: "toLowerCase ''exe'' = ''exe''"
  by (simp add: toLowerCase_def lowerChar_def upperLetters_def lowerLetters_def)

lemma getFileExtension_invoice: "getFileExtension ''invoice.pdf.exe'' = ''exe''"
  by (simp add: getFileExtension_def Let_def split_on_invoice toLowerCase_exe)

lemma checkAttachment_invoice:
  "checkAttachment \<lparr>name = ''invoice.pdf.exe'', size = sz, extension = ''exe''\<rparr> =
     \<lparr>att_name = ''invoice.pdf.exe'', att_extension = ''exe'', att_dangerous = True,
      att_riskScore = 130,
      att_flags = [''Dangerous file type: .exe'', ''Double extension detected'']\<rparr>"
  by (simp add: checkAttachment_def Let_def toLowerCase_exe split_on_invoice
      extensionStep_def macroStep_def doubleExtensionStep_def dangerousExts_def macroExts_def)

text \<open>
  C7: for the attachment \<open>invoice.pdf.exe\<close> with extension \<open>exe\<close>, \<open>checkAttachment\<close> returns
  dangerous with risk score 130 (90 + 40, not clamped); for the message holding it the
  dangerous count is 1 and the aggregator's attachment score is 90.
\<close>

theorem invoice_pdf_exe_scores:
  "att_dangerous
     (checkAttachment \<lparr>name = ''invoice.pdf.exe'', size = sz, extension = ''exe''\<rparr>) \<and>
   att_riskScore
     (checkAttachment \<lparr>name = ''invoice.pdf.exe'', size = sz, extension = ''exe''\<rparr>) = 130 \<and>
   att_dangerousCount
     (analyzeAttachments [\<lparr>name = ''invoice.pdf.exe'', size = sz, extension = ''exe''\<rparr>]) = 1 \<and>
   attachmentScore (a\<lparr>attachmentAnalysis :=
     analyzeAttachments [\<lparr>name = ''invoice.pdf.exe'', size = sz, extension = ''exe''\<rparr>]\<rparr>) = 90"
  by (simp add: analyzeAttachments_def Let_def checkAttachment_invoice attachmentScore_def)

lemma extensionStep_cases:
  "extensionStep ext = (True, 90, [''Dangerous file type: .'' @ ext]) \<or>
   extensionStep ext = (False, 30, [''Requires caution: .'' @ ext]) \<or>
   extensionStep ext = (False, 0, [])"
  by (simp add: extensionStep_def)

lemma extensionStep_consistent: "att_consistent (extensionStep ext)"
  using extensionStep_cases [of ext] by (auto simp: att_consistent_def)

lemma macroStep_consistent: "att_consistent st \<Longrightarrow> att_consistent (macroStep ext st)"
  by (cases st) (auto simp: macroStep_def att_consistent_def split: if_splits)

lemma doubleExtensionStep_consistent:
  "att_consistent st \<Longrightarrow> att_consistent (doubleExtensionStep nm st)"
  by (cases st) (auto simp: doubleExtensionStep_def att_consistent_def split: if_splits)

text \<open>
  C10: the result of \<open>checkAttachment\<close> is never inconsistent: dangerous implies a risk
  score of at least 40, not dangerous implies a risk score of at most 30.
\<close>

theorem checkAttachment_flag_score_consistent:
  "(att_dangerous (checkAttachment a) \<longrightarrow> att_riskScore (checkAttachment a) \<ge> 40) \<and>
   (\<not> att_dangerous (checkAttachment a) \<longrightarrow> att_riskScore (checkAttachment a) \<le> 30)"
proof -
  have "att_consistent (doubleExtensionStep (name a)
          (macroStep (toLowerCase (extension a)) (extensionStep (toLowerCase (extension a)))))"
    by (intro doubleExtensionStep_consistent macroStep_consistent extensionStep_consistent)
  then show ?thesis
    by (simp add: checkAttachment_def Let_def att_consistent_def split: if_splits)
qed

lemma checkAttachment_sample_pdf:
  "checkAttachment sample_pdf =
     \<lparr>att_name = ''report.pdf'', att_extension = ''pdf'', att_dangerous = False,
      att_riskScore = 30, att_flags = [''Requires caution: .pdf'']\<rparr>"
  by (simp add: checkAttachment_def Let_def sample_pdf_def toLowerCase_def lowerChar_def
      upperLetters_def lowerLetters_def extensionStep_def macroStep_def doubleExtensionStep_def dangerousExts_def
      suspiciousExts_def macroExts_def)

theorem checkAttachment_flag_score_consistent_witness:
  "att_dangerous (checkAttachment sample_exe) \<and>
   att_riskScore (checkAttachment sample_exe) \<ge> 40 \<and>
   \<not> att_dangerous (checkAttachment sample_pdf) \<and>
   att_riskScore (checkAttachment sample_pdf) \<le> 30"
  using checkAttachment_flag_score_consistent [of sample_exe]
    checkAttachment_flag_score_consistent [of sample_pdf]
  by (simp add: sample_exe_def checkAttachment_invoice checkAttachment_sample_pdf)


section \<open>Properties of the regular-expression matcher\<close>

lemma nil_in_conc: "[] \<in> lang_conc A B \<longleftrightarrow> [] \<in> A \<and> [] \<in> B"
  by (auto simp: lang_conc_def)

lemma conc_empty_left: "lang_conc {} B = {}"
  by (simp add: lang_conc_def)

lemma conc_empty_right: "lang_conc A {} = {}"
  by (simp add: lang_conc_def)

lemma conc_eps_left: "lang_conc {[]} B = B"
  by (auto simp: lang_conc_def)

lemma concI: "xs \<in> A \<Longrightarrow> ys \<in> B \<Longrightarrow> xs @ ys \<in> lang_conc A B"
  by (auto simp: lang_conc_def)

lemma nullable_lang: "nullable r \<longleftrightarrow> [] \<in> lang ci r"
  by (induction r) (auto simp: nil_in_conc intro: lang_star.star_nil)

lemma lang_seq: "lang ci (seq r s) = lang_conc (lang ci r) (lang ci s)"
  by (cases r) (auto simp: conc_empty_left conc_empty_right conc_eps_left)

lemma lang_alt: "lang ci (alt r s) = lang ci r \<union> lang ci s"
  by (cases r) auto

lemma quotient_conc:
  "left_quotient d (lang_conc A B) =
     lang_conc (left_quotient d A) B \<union> (if [] \<in> A then left_quotient d B else {})"
proof (intro set_eqI iffI)
  fix w assume "w \<in> left_quotient d (lang_conc A B)"
  then obtain xs ys where x: "xs \<in> A" and y: "ys \<in> B" and e: "d # w = xs @ ys"
    by (auto simp: left_quotient_def lang_conc_def)
  show "w \<in> lang_conc (left_quotient d A) B \<union> (if [] \<in> A then left_quotient d B else {})"
  proof (cases xs)
    case Nil
    with x y e show ?thesis by (auto simp: left_quotient_def)
  next
    case (Cons a as)
    with e have "a = d" and "w = as @ ys" by auto
    with x y Cons have "w \<in> lang_conc (left_quotient d A) B"
      by (auto simp: left_quotient_def lang_conc_def)
    then show ?thesis by simp
  qed
next
  fix w assume "w \<in> lang_conc (left_quotient d A) B \<union> (if [] \<in> A then left_quotient d B else {})"
  then consider "w \<in> lang_conc (left_quotient d A) B" | "[] \<in> A" "w \<in> left_quotient d B"
    by (auto split: if_splits)
  then show "w \<in> left_quotient d (lang_conc A B)"
  proof cases
    case 1
    then obtain xs ys where "d # xs \<in> A" "ys \<in> B" "w = xs @ ys"
      by (auto simp: left_quotient_def lang_conc_def)
    then have "(d # xs) @ ys \<in> lang_conc A B" by (intro concI)
    with \<open>w = xs @ ys\<close> show ?thesis by (simp add: left_quotient_def)
  next
    case 2
    then have "[] @ (d # w) \<in> lang_conc A B"
      by (intro concI) (simp_all add: left_quotient_def)
    then show ?thesis by (simp add: left_quotient_def)
  qed
qed

lemma star_cons_split:
  "x \<in> lang_star A \<Longrightarrow> x = d # w \<Longrightarrow>
   \<exists>u v. w = u @ v \<and> d # u \<in> A \<and> v \<in> lang_star A"
proof (induction arbitrary: w rule: lang_star.induct)
  case star_nil
  then show ?case by simp
next
  case (star_step u v)
  show ?case
  proof (cases u)
    case Nil
    with star_step show ?thesis by simp
  next
    case (Cons a as)
    with star_step.prems have "a = d" "w = as @ v" by auto
    with star_step.hyps Cons show ?thesis by blast
  qed
qed

lemma quotient_star:
  "left_quotient d (lang_star A) = lang_conc (left_quotient d A) (lang_star A)"
proof (intro set_eqI iffI)
  fix w assume "w \<in> left_quotient d (lang_star A)"
  then have "d # w \<in> lang_star A" by (simp add: left_quotient_def)
  from star_cons_split [OF this refl]
  show "w \<in> lang_conc (left_quotient d A) (lang_star A)"
    by (auto simp: left_quotient_def lang_conc_def)
next
  fix w assume "w \<in> lang_conc (left_quotient d A) (lang_star A)"
  then obtain u v where "d # u \<in> A" "v \<in> lang_star A" "w = u @ v"
    by (auto simp: left_quotient_def lang_conc_def)
  then have "(d # u) @ v \<in> lang_star A" by (intro lang_star.star_step)
  with \<open>w = u @ v\<close> show "w \<in> left_quotient d (lang_star A)"
    by (simp add: left_quotient_def)
qed

lemma lang_deriv: "lang ci (deriv ci d r) = left_quotient d (lang ci r)"
proof (induction r)
  case (RSeq r s)
  then show ?case
    by (simp add: lang_seq lang_alt quotient_conc nullable_lang [of r ci])
next
  case (RAlt r s)
  then show ?case by (auto simp: lang_alt left_quotient_def)
next
  case (RStar r)
  then show ?case by (simp add: lang_seq quotient_star)
qed (auto simp: left_quotient_def)

text \<open>The matcher decides membership in the language of the pattern.\<close>

lemma matches_lang: "matches ci r s \<longleftrightarrow> s \<in> lang ci r"
  by (induction s arbitrary: r) (simp_all add: nullable_lang lang_deriv left_quotient_def)


section \<open>Properties of the Domain Trust Resolver\<close>

lemma resolve_rejected: "fetch_dns e n t = FetchRejected \<Longrightarrow> resolve e n t = []"
  by (simp add: resolve_def)

lemma resolve_not_ok: "fetch_dns e n t = FetchResponse False b \<Longrightarrow> resolve e n t = []"
  by (simp add: resolve_def)

lemma resolve_not_json: "fetch_dns e n t = FetchResponse True None \<Longrightarrow> resolve e n t = []"
  by (simp add: resolve_def)

lemma checkSPF_no_record:
  "find (dataIncludes ''v=spf1'') (resolve e (template dn) ''TXT'') = None \<Longrightarrow>
   checkSPF e dn = ''fail''"
  by (simp add: checkSPF_def)

lemma checkSPF_record:
  "find (dataIncludes ''v=spf1'') (resolve e (template dn) ''TXT'') = Some r \<Longrightarrow>
   data r = Some d \<Longrightarrow>
   checkSPF e dn = (if includes_str d ''~all'' \<or> includes_str d ''-all'' then ''pass''
                    else ''neutral'')"
  by (simp add: checkSPF_def)

text \<open>
  C6: \<open>checkSPF\<close> returns \<open>fail\<close> when the transport fails (the fetch is rejected, the
  response is not ok, the body is not JSON) and when no TXT record containing \<open>v=spf1\<close> is
  found; when the record found is \<open>r\<close>, it returns \<open>pass\<close> exactly when the text of \<open>r\<close>
  contains \<open>~all\<close> or \<open>-all\<close>, and \<open>neutral\<close> exactly otherwise.
\<close>

theorem checkSPF_fail_closed:
  "(fetch_dns e (template dn) ''TXT'' = FetchRejected \<longrightarrow> checkSPF e dn = ''fail'') \<and>
   (fetch_dns e (template dn) ''TXT'' = FetchResponse False b \<longrightarrow> checkSPF e dn = ''fail'') \<and>
   (fetch_dns e (template dn) ''TXT'' = FetchResponse True None \<longrightarrow> checkSPF e dn = ''fail'') \<and>
   (find (dataIncludes ''v=spf1'') (resolve e (template dn) ''TXT'') = None \<longrightarrow>
      checkSPF e dn = ''fail'') \<and>
   (find (dataIncludes ''v=spf1'') (resolve e (template dn) ''TXT'') = Some r \<longrightarrow>
      (\<exists>d. data r = Some d \<and>
         (checkSPF e dn = ''pass'' \<longleftrightarrow> includes_str d ''~all'' \<or> includes_str d ''-all'') \<and>
         (checkSPF e dn = ''neutral'' \<longleftrightarrow>
            \<not> (includes_str d ''~all'' \<or> includes_str d ''-all''))))"
proof (intro conjI impI)
  assume "fetch_dns e (template dn) ''TXT'' = FetchRejected"
  then show "checkSPF e dn = ''fail''"
    by (simp add: checkSPF_no_record resolve_rejected)
next
  assume "fetch_dns e (template dn) ''TXT'' = FetchResponse False b"
  then show "checkSPF e dn = ''fail''"
    by (simp add: checkSPF_no_record resolve_not_ok)
next
  assume "fetch_dns e (template dn) ''TXT'' = FetchResponse True None"
  then show "checkSPF e dn = ''fail''"
    by (simp add: checkSPF_no_record resolve_not_json)
next
  assume "find (dataIncludes ''v=spf1'') (resolve e (template dn) ''TXT'') = None"
  then show "checkSPF e dn = ''fail''"
    by (rule checkSPF_no_record)
next
  assume f: "find (dataIncludes ''v=spf1'') (resolve e (template dn) ''TXT'') = Some r"
  then have "dataIncludes ''v=spf1'' r"
    by (auto simp: find_Some_iff)
  then obtain d where t: "data r = Some d"
    by (auto simp: dataIncludes_def split: option.splits)
  show "\<exists>d. data r = Some d \<and>
         (checkSPF e dn = ''pass'' \<longleftrightarrow> includes_str d ''~all'' \<or> includes_str d ''-all'') \<and>
         (checkSPF e dn = ''neutral'' \<longleftrightarrow>
            \<not> (includes_str d ''~all'' \<or> includes_str d ''-all''))"
    using t checkSPF_record [OF f t] by auto
qed

lemma sample_resolve:
  "resolve sample_env nm ''TXT'' =
     (if nm = ''strict.example'' then [\<lparr>data = Some ''v=spf1 mx -all'', priority = None\<rparr>]
      else if nm = ''open.example'' then [\<lparr>data = Some ''v=spf1 mx ?all'', priority = None\<rparr>]
      else if nm = ''plain.example''
        then [\<lparr>data = Some ''site-verification=abc'', priority = None\<rparr>]
      else [])"
  by (simp add: resolve_def sample_env_def sample_fetch_dns_def txt_answer_def)

theorem checkSPF_fail_closed_witness:
  "fetch_dns sample_env ''down.example'' ''TXT'' = FetchRejected \<and>
   checkSPF sample_env (Some ''down.example'') = ''fail'' \<and>
   fetch_dns sample_env ''refused.example'' ''TXT'' = FetchResponse False None \<and>
   checkSPF sample_env (Some ''refused.example'') = ''fail'' \<and>
   fetch_dns sample_env ''garbled.example'' ''TXT'' = FetchResponse True None \<and>
   checkSPF sample_env (Some ''garbled.example'') = ''fail'' \<and>
   find (dataIncludes ''v=spf1'') (resolve sample_env ''plain.example'' ''TXT'') = None \<and>
   checkSPF sample_env (Some ''plain.example'') = ''fail'' \<and>
   find (dataIncludes ''v=spf1'') (resolve sample_env ''strict.example'' ''TXT'') =
     Some \<lparr>data = Some ''v=spf1 mx -all'', priority = None\<rparr> \<and>
   checkSPF sample_env (Some ''strict.example'') = ''pass'' \<and>
   find (dataIncludes ''v=spf1'') (resolve sample_env ''open.example'' ''TXT'') =
     Some \<lparr>data = Some ''v=spf1 mx ?all'', priority = None\<rparr> \<and>
   checkSPF sample_env (Some ''open.example'') = ''neutral''"
proof -
  have f1: "fetch_dns sample_env ''down.example'' ''TXT'' = FetchRejected"
    by (simp add: sample_env_def sample_fetch_dns_def)
  have f2: "fetch_dns sample_env ''refused.example'' ''TXT'' = FetchResponse False None"
    by (simp add: sample_env_def sample_fetch_dns_def)
  have f3: "fetch_dns sample_env ''garbled.example'' ''TXT'' = FetchResponse True None"
    by (simp add: sample_env_def sample_fetch_dns_def)
  have f4: "find (dataIncludes ''v=spf1'') (resolve sample_env ''plain.example'' ''TXT'') = None"
    by (simp add: sample_resolve dataIncludes_def)
  have f5: "find (dataIncludes ''v=spf1'') (resolve sample_env ''strict.example'' ''TXT'') =
     Some \<lparr>data = Some ''v=spf1 mx -all'', priority = None\<rparr>"
    by (simp add: sample_resolve dataIncludes_def)
  have f6: "find (dataIncludes ''v=spf1'') (resolve sample_env ''open.example'' ''TXT'') =
     Some \<lparr>data = Some ''v=spf1 mx ?all'', priority = None\<rparr>"
    by (simp add: sample_resolve dataIncludes_def)
  have c1: "checkSPF sample_env (Some ''down.example'') = ''fail''"
    using checkSPF_fail_closed [of sample_env "Some ''down.example''"] f1
    by (simp add: template_def)
  have c2: "checkSPF sample_env (Some ''refused.example'') = ''fail''"
    using checkSPF_fail_closed [of sample_env "Some ''refused.example''" None] f2
    by (simp add: template_def)
  have c3: "checkSPF sample_env (Some ''garbled.example'') = ''fail''"
    using checkSPF_fail_closed [of sample_env "Some ''garbled.example''"] f3
    by (simp add: template_def)
  have c4: "checkSPF sample_env (Some ''plain.example'') = ''fail''"
    using checkSPF_fail_closed [of sample_env "Some ''plain.example''"] f4
    by (simp add: template_def)
  have c5: "checkSPF sample_env (Some ''strict.example'') = ''pass''"
    using checkSPF_fail_closed [of sample_env "Some ''strict.example''" _
        "\<lparr>data = Some ''v=spf1 mx -all'', priority = None\<rparr>"] f5
    by (simp add: template_def)
  have c6: "checkSPF sample_env (Some ''open.example'') = ''neutral''"
    using checkSPF_fail_closed [of sample_env "Some ''open.example''" _
        "\<lparr>data = Some ''v=spf1 mx ?all'', priority = None\<rparr>"] f6
    by (simp add: template_def)
  show ?thesis
    using f1 f2 f3 f4 f5 f6 c1 c2 c3 c4 c5 c6 by simp
qed


section \<open>Properties of the URL Risk Analyzer\<close>

lemma analyzeUrl_outcome: "analyzeUrl e u = Inr (urlOutcome e u)"
  by (simp add: analyzeUrl_def urlOutcome_def split: sum.splits)

lemma promiseAll_analyzeUrl:
  "promiseAll (map (analyzeUrl e) us) = Inr (map (urlOutcome e) us)"
  by (induction us) (simp_all add: analyzeUrl_outcome)

lemma analyzeUrls_urls:
  "urls (analyzeUrls e us) = map (urlOutcome e) (take 10 us) \<and>
   url_error (analyzeUrls e us) = None"
  by (simp add: analyzeUrls_def promiseAll_analyzeUrl Let_def)

text \<open>
  C8: when the analysis of one URL throws, \<open>analyzeUrl\<close> answers with risk score 0, not
  dangerous and the single flag \<open>Unable to analyze\<close>; and whatever the URLs are,
  \<open>analyzeUrls\<close> does not take its error path: it holds one result for each of the first
  ten URLs, the result \<open>analyzeUrl\<close> gives for that URL.
\<close>

theorem url_failure_is_local:
  "(analyzeUrl_try e u = Inl err \<longrightarrow>
      analyzeUrl e u = Inr \<lparr>url = u, resolvedUrl = None, dangerous = False, riskScore = 0,
                             flags = [''Unable to analyze''], redirects = None\<rparr>) \<and>
   url_error (analyzeUrls e us) = None \<and>
   length (urls (analyzeUrls e us)) = min 10 (length us) \<and>
   (\<forall>i < min 10 (length us). analyzeUrl e (us ! i) = Inr (urls (analyzeUrls e us) ! i))"
  by (simp add: analyzeUrls_urls analyzeUrl_outcome urlOutcome_def unableToAnalyze_def)


lemma not_short_url: "\<not> test SHORT_URL ''not a url''"
  by code_simp

lemma analyzeUrl_try_not_a_url: "analyzeUrl_try sample_env ''not a url'' = Inl InvalidURL"
  by (simp add: analyzeUrl_try_def expandShortUrl_def not_short_url sample_env_def
      sample_parse_url_def long_letters_url_def mid_letters_url_def)

lemma analyzeUrl_example_com:
  "analyzeUrl sample_env ''https://example.com/'' =
     Inr \<lparr>url = ''https://example.com/'', resolvedUrl = Some ''https://example.com/'',
          dangerous = False, riskScore = 0, flags = [], redirects = None\<rparr>"
  by code_simp

theorem url_failure_is_local_witness:
  "analyzeUrl_try sample_env ''not a url'' = Inl InvalidURL \<and>
   analyzeUrl sample_env ''not a url'' =
     Inr \<lparr>url = ''not a url'', resolvedUrl = None, dangerous = False, riskScore = 0,
          flags = [''Unable to analyze''], redirects = None\<rparr> \<and>
   (1::nat) < min 10 (length [''not a url'', ''https://example.com/'']) \<and>
   urls (analyzeUrls sample_env [''not a url'', ''https://example.com/'']) ! 1 =
     \<lparr>url = ''https://example.com/'', resolvedUrl = Some ''https://example.com/'',
      dangerous = False, riskScore = 0, flags = [], redirects = None\<rparr>"
proof -
  note t = url_failure_is_local [of sample_env "''not a url''" InvalidURL
      "[''not a url'', ''https://example.com/'']"]
  have a: "analyzeUrl sample_env ''not a url'' =
     Inr \<lparr>url = ''not a url'', resolvedUrl = None, dangerous = False, riskScore = 0,
          flags = [''Unable to analyze''], redirects = None\<rparr>"
    using t analyzeUrl_try_not_a_url by blast
  have l: "(1::nat) < min 10 (length [''not a url'', ''https://example.com/''])"
    by simp
  from t have "\<forall>i < min 10 (length [''not a url'', ''https://example.com/'']).
      analyzeUrl sample_env ([''not a url'', ''https://example.com/''] ! i) =
      Inr (urls (analyzeUrls sample_env [''not a url'', ''https://example.com/'']) ! i)"
    by blast
  with l have "analyzeUrl sample_env ([''not a url'', ''https://example.com/''] ! 1) =
      Inr (urls (analyzeUrls sample_env [''not a url'', ''https://example.com/'']) ! 1)"
    by blast
  then have b: "urls (analyzeUrls sample_env [''not a url'', ''https://example.com/'']) ! 1 =
     \<lparr>url = ''https://example.com/'', resolvedUrl = Some ''https://example.com/'',
      dangerous = False, riskScore = 0, flags = [], redirects = None\<rparr>"
    by (simp add: analyzeUrl_example_com)
  show ?thesis
    using analyzeUrl_try_not_a_url a l b by blast
qed

lemma letter_in_class:
  "isLetter c \<Longrightarrow> [c] \<in> lang False (RCls (lowerLetters @ upperLetters))"
  by (auto simp: isLetter_def isUpper_def isLower_def inClass_def)

lemma letters_rep:
  "\<forall>c \<in> set xs. isLetter c \<Longrightarrow>
   xs \<in> lang False (rep (length xs) (RCls (lowerLetters @ upperLetters)))"
proof (induction xs)
  case Nil
  then show ?case by simp
next
  case (Cons c cs)
  then have "[c] @ cs \<in> lang_conc (lang False (RCls (lowerLetters @ upperLetters)))
      (lang False (rep (length cs) (RCls (lowerLetters @ upperLetters))))"
    by (intro concI letter_in_class) simp_all
  then show ?case by simp
qed

lemma letters_star:
  "\<forall>c \<in> set xs. isLetter c \<Longrightarrow>
   xs \<in> lang_star (lang False (RCls (lowerLetters @ upperLetters)))"
proof (induction xs)
  case Nil
  then show ?case by (simp add: lang_star.star_nil)
next
  case (Cons c cs)
  then have "[c] @ cs \<in> lang_star (lang False (RCls (lowerLetters @ upperLetters)))"
    by (intro lang_star.star_step letter_in_class) simp_all
  then show ?case by simp
qed

lemma anyText_all: "xs \<in> lang ci anyText"
proof (induction xs)
  case Nil
  then show ?case by (simp add: anyText_def lang_star.star_nil)
next
  case (Cons c cs)
  have "[c] \<in> lang ci (RNot [])" by (simp add: inClass_def)
  with Cons have "[c] @ cs \<in> lang_star (lang ci (RNot []))"
    unfolding anyText_def by (intro lang_star.star_step) simp_all
  then show ?case by (simp add: anyText_def)
qed

lemma test_lettersRun:
  assumes l: "\<forall>c \<in> set xs. isLetter c" and n: "30 \<le> length xs"
  shows "test lettersRun xs"
proof -
  let ?L = "RCls (lowerLetters @ upperLetters)"
  have a: "\<forall>c \<in> set (take 30 xs). isLetter c" using l by (auto dest: in_set_takeD)
  have b: "\<forall>c \<in> set (drop 30 xs). isLetter c" using l by (auto dest: in_set_dropD)
  have "length (take 30 xs) = 30" using n by simp
  with letters_rep [OF a] have 1: "take 30 xs \<in> lang False (rep 30 ?L)" by simp
  have 2: "drop 30 xs \<in> lang False (RStar ?L)" using letters_star [OF b] by simp
  have "take 30 xs @ drop 30 xs \<in> lang False (repAtLeast 30 ?L)"
    unfolding repAtLeast_def lang.simps using 1 2 by (intro concI) simp_all
  then have 3: "xs \<in> lang False (repAtLeast 30 ?L)" by simp
  have "[] @ (xs @ []) \<in> lang False (RSeq anyText (RSeq (repAtLeast 30 ?L) anyText))"
    unfolding lang.simps using 3 by (intro concI anyText_all)
  then show ?thesis
    by (simp add: test_def lettersRun_def regex_def matches_lang)
qed

lemma longRandomPath_iff:
  "longRandomPath urlObj \<longleftrightarrow>
     length (pathname urlObj @ search urlObj) > 80 \<and>
     length (filter isLetter (pathname urlObj @ search urlObj)) > 40"
proof -
  have "test lettersRun (filter isLetter (pathname urlObj @ search urlObj))"
    if "length (filter isLetter (pathname urlObj @ search urlObj)) > 40"
    using that by (intro test_lettersRun) auto
  then show ?thesis
    by (auto simp: longRandomPath_def Let_def)
qed

lemma long_flag_member:
  "''Very long randomized URL path'' \<in> set (st_reasons (checkUrlStructure e u)) \<longleftrightarrow>
     (\<exists>urlObj. parse_url e u = Some urlObj \<and> longRandomPath urlObj)"
  by (auto simp: checkUrlStructure_def flagIf_def split: option.splits)

lemma sample_urls_differ: "mid_letters_url \<noteq> long_letters_url"
proof
  assume "mid_letters_url = long_letters_url"
  then have "length mid_letters_url = length long_letters_url"
    by simp
  then show False
    by (simp add: mid_letters_url_def long_letters_url_def)
qed

lemma parse_mid_letters_url: "parse_url sample_env mid_letters_url = Some mid_letters_obj"
  by (simp add: sample_env_def sample_parse_url_def sample_urls_differ)

lemma parse_long_letters_url: "parse_url sample_env long_letters_url = Some long_letters_obj"
  by (simp add: sample_env_def sample_parse_url_def)

lemma isLetter_a: "isLetter (CHR ''a'')"
  by (simp add: isLetter_def isLower_def lowerLetters_def)

lemma not_isLetter_1: "\<not> isLetter (CHR ''1'')"
  by (simp add: isLetter_def isLower_def isUpper_def lowerLetters_def upperLetters_def)

lemma not_isLetter_slash: "\<not> isLetter (CHR ''/'')"
  by (simp add: isLetter_def isLower_def isUpper_def lowerLetters_def upperLetters_def)

lemma mid_letters_only:
  "filter isLetter (pathname mid_letters_obj @ search mid_letters_obj) =
     replicate 35 (CHR ''a'')"
  by (simp add: mid_letters_obj_def isLetter_a not_isLetter_1 not_isLetter_slash)

lemma mid_length: "length (pathname mid_letters_obj @ search mid_letters_obj) = 81"
  by (simp add: mid_letters_obj_def)

lemma long_letters_only:
  "filter isLetter (pathname long_letters_obj @ search long_letters_obj) =
     replicate 45 (CHR ''a'')"
  by (simp add: long_letters_obj_def isLetter_a not_isLetter_1 not_isLetter_slash)

lemma long_length: "length (pathname long_letters_obj @ search long_letters_obj) = 86"
  by (simp add: long_letters_obj_def)

text \<open>
  C3 as stated fails: a path of 81 characters with 35 letters, all in one run, meets the
  stated condition (longer than 80, letters-only content a run of at least 30 letters),
  and the flag is not raised, since the source also asks for more than 40 letters.
\<close>

theorem long_path_claim_counterexample:
  "parse_url sample_env mid_letters_url = Some mid_letters_obj \<and>
   claimedLongRandomPath mid_letters_obj \<and>
   ''Very long randomized URL path'' \<notin>
     set (st_reasons (checkUrlStructure sample_env mid_letters_url))"
proof -
  have c: "claimedLongRandomPath mid_letters_obj"
    unfolding claimedLongRandomPath_def mid_letters_only mid_length
    by (simp add: test_lettersRun isLetter_a)
  have n: "\<not> longRandomPath mid_letters_obj"
    unfolding longRandomPath_iff mid_letters_only mid_length by simp
  show ?thesis
    using c n by (simp add: long_flag_member parse_mid_letters_url)
qed

text \<open>
  C3, amended: the flag \<open>Very long randomized URL path\<close> is raised exactly when the URL
  parses, path and query together are longer than 80 characters, and they hold more than
  40 letters.
\<close>

theorem long_path_flag_iff:
  "''Very long randomized URL path'' \<in> set (st_reasons (checkUrlStructure e u)) \<longleftrightarrow>
     (\<exists>urlObj. parse_url e u = Some urlObj \<and>
        length (pathname urlObj @ search urlObj) > 80 \<and>
        length (filter isLetter (pathname urlObj @ search urlObj)) > 40)"
  by (simp add: long_flag_member longRandomPath_iff)

theorem long_path_flag_iff_witness:
  "parse_url sample_env long_letters_url = Some long_letters_obj \<and>
   length (pathname long_letters_obj @ search long_letters_obj) = 86 \<and>
   length (filter isLetter (pathname long_letters_obj @ search long_letters_obj)) = 45 \<and>
   ''Very long randomized URL path'' \<in>
     set (st_reasons (checkUrlStructure sample_env long_letters_url))"
proof -
  have "''Very long randomized URL path'' \<in>
     set (st_reasons (checkUrlStructure sample_env long_letters_url))"
    unfolding long_path_flag_iff [of sample_env long_letters_url] parse_long_letters_url
    by (simp add: long_letters_only long_length del: filter_append length_append)
  then show ?thesis
    by (simp add: parse_long_letters_url long_letters_only long_length
        del: filter_append length_append)
qed


section \<open>The whole-email analysis and a missing sender domain\<close>

lemma extractDomain_no_at: "extractDomain ''Security Team'' = None"
  by (simp add: extractDomain_def)

lemma no_domain_email_brand: "mentionedBrand no_domain_email = Some ''paypal''"
  by (simp add: mentionedBrand_def contentText_def no_domain_email_def brands_def
      toLowerCase_def lowerChar_def upperLetters_def lowerLetters_def)

lemma analyzeContent_no_domain_email:
  "analyzeContent no_domain_email = Inl (NullProperty ''includes'')"
proof -
  have "extractDomain (sender no_domain_email) = None"
    by (simp add: no_domain_email_def extractDomain_no_at)
  then show ?thesis
    by (simp add: analyzeContent_def checkImpersonation_def no_domain_email_brand)
qed

text \<open>
  The content analysis rejects, and \<open>analyzeEmail\<close> takes its error path, exactly when the
  sender has no domain and the text mentions one of the brands.
\<close>

lemma analyzeContent_rejects_iff:
  "(\<exists>err. analyzeContent ed = Inl err) \<longleftrightarrow>
     extractDomain (sender ed) = None \<and>
     (\<exists>b \<in> set brands. includes_str (contentText ed) b)"
proof (cases "mentionedBrand ed")
  case None
  then have "\<not> (\<exists>b \<in> set brands. includes_str (contentText ed) b)"
    by (simp add: mentionedBrand_def find_None_iff)
  with None show ?thesis
    by (simp add: analyzeContent_def checkImpersonation_def)
next
  case (Some b)
  then obtain i where "i < length brands" and "includes_str (contentText ed) (brands ! i)"
    by (auto simp: mentionedBrand_def find_Some_iff)
  then have "\<exists>b \<in> set brands. includes_str (contentText ed) b"
    by (intro bexI [of _ "brands ! i"]) simp_all
  with Some show ?thesis
    by (cases "extractDomain (sender ed)")
       (simp_all add: analyzeContent_def checkImpersonation_def)
qed

lemma analyzeEmail_error_path_iff:
  "v_error (analyzeEmail e ed) \<noteq> None \<longleftrightarrow>
     extractDomain (sender ed) = None \<and>
     (\<exists>b \<in> set brands. includes_str (contentText ed) b)"
proof -
  have "v_error (analyzeEmail e ed) \<noteq> None \<longleftrightarrow> (\<exists>err. analyzeContent ed = Inl err)"
    by (cases "analyzeContent ed") (simp_all add: analyzeEmail_def errorVerdict_def Let_def)
  then show ?thesis
    by (simp add: analyzeContent_rejects_iff)
qed

text \<open>
  C4 asks that a sender without a domain is analysed normally. For the message with sender
  text \<open>Security Team\<close> and a subject naming \<open>paypal\<close>, the content analysis throws on the
  null domain and \<open>analyzeEmail\<close> returns the object of its \<open>catch\<close>: score 50, SUSPICIOUS,
  the error text, no analyzer result.
\<close>

theorem missing_domain_takes_error_path:
  "extractDomain (sender no_domain_email) = None \<and>
   analyzeEmail e no_domain_email = errorVerdict (message e (NullProperty ''includes'')) \<and>
   threatScore (analyzeEmail e no_domain_email) = 50 \<and>
   v_contentAnalysis (analyzeEmail e no_domain_email) = None \<and>
   v_error (analyzeEmail e no_domain_email) \<noteq> None"
proof -
  have d: "extractDomain (sender no_domain_email) = None"
    by (simp add: no_domain_email_def extractDomain_no_at)
  have v: "analyzeEmail e no_domain_email = errorVerdict (message e (NullProperty ''includes''))"
    by (simp add: analyzeEmail_def analyzeContent_no_domain_email)
  show ?thesis
    unfolding v using d by (simp add: errorVerdict_def)
qed

end
